theory Spec2Isabelle
  imports Complex_Main "HOL-Library.Multiset"
begin

section \<open>Weather station provider comparison (scripts/check_weather_stations.py)\<close>

text \<open>
  Conventions of the embedding.
  \<^item> The value of a Python \<open>float\<close> is a mathematical \<^typ>\<open>real\<close>: the model computes
    with exact reals, so IEEE rounding error, NaN and the infinities are outside it. The
    negative zero is kept where the program can tell it from zero: in a stored
    coordinate, which \<open>.4f\<close> prints with its sign. An \<open>int\<close> read from JSON is an
    \<^typ>\<open>int\<close>; converting one that is too large for a float raises OverflowError.
  \<^item> An exception is a value: a fallible expression has type \<open>error + 'a\<close>, \<open>Inl\<close> being
    the exception raised.
  \<^item> The network is a parameter: a function from a request to what \<open>requests.get\<close>
    does with it. Every request issued and every line printed by an adapter is
    recorded in the trace the adapter returns beside its station list.
\<close>

subsection \<open>Values and exceptions\<close>

datatype error =
    ConnectionError
  | HTTPError int
  | JSONDecodeError
  | InvalidURL
  | TypeError
  | ValueError
  | AttributeError
  | KeyError
  | IndexError
  | ZeroDivisionError
  | OverflowError

text \<open>A Python float as the program stores and prints it: a real number, or the
  negative zero \<open>-0.0\<close>, which is equal to zero in every comparison and computation but
  carries the sign bit.\<close>

datatype pyfloat = Float real | NegZero

fun float_value :: "pyfloat \<Rightarrow> real" where
  "float_value (Float x) = x"
| "float_value NegZero = 0"

fun signbit :: "pyfloat \<Rightarrow> bool" where
  "signbit (Float x) = (x < 0)"
| "signbit NegZero = True"

text \<open>What \<open>response.json()\<close> returns: a parsed JSON document. A number is an \<open>int\<close>
  of any size or a \<open>float\<close>. An object holds the items of the parsed \<open>dict\<close>.\<close>

datatype json =
    JNull
  | JBool bool
  | JInt int
  | JFloat pyfloat
  | JStr string
  | JArr "json list"
  | JObj "(string \<times> json) list"

definition try_bind :: "error + 'a \<Rightarrow> ('a \<Rightarrow> error + 'b) \<Rightarrow> error + 'b" where
  "try_bind m f = (case m of Inl e \<Rightarrow> Inl e | Inr x \<Rightarrow> f x)"

text \<open>\<open>d.get(key, default)\<close>: an attribute of \<open>dict\<close> only.\<close>

fun json_get :: "json \<Rightarrow> string \<Rightarrow> json \<Rightarrow> error + json" where
  "json_get (JObj kvs) k dflt = Inr (case map_of kvs k of None \<Rightarrow> dflt | Some v \<Rightarrow> v)"
| "json_get _ k dflt = Inl AttributeError"

text \<open>\<open>for x in data\<close>: a list yields its elements, a dict its keys, a string its
  characters; nothing else is iterable.\<close>

fun json_iter :: "json \<Rightarrow> error + json list" where
  "json_iter (JArr xs) = Inr xs"
| "json_iter (JObj kvs) = Inr (map (\<lambda>kv. JStr (fst kv)) kvs)"
| "json_iter (JStr s) = Inr (map (\<lambda>c. JStr [c]) s)"
| "json_iter _ = Inl TypeError"

text \<open>An \<open>int\<close> converts to a float when it rounds to a finite double; from
  \<open>2**1024 - 2**970\<close> on the conversion raises OverflowError.\<close>

definition fits_float :: "int \<Rightarrow> bool" where
  "fits_float n \<longleftrightarrow> \<bar>n\<bar> < 2 ^ 1024 - 2 ^ 970"

text \<open>What \<open>math.radians\<close> accepts as a number, as the float it converts it to:
  \<open>float\<close>, \<open>int\<close> (if it fits) and \<open>bool\<close> (\<open>True\<close> is 1).\<close>

fun as_float :: "json \<Rightarrow> error + pyfloat" where
  "as_float (JFloat f) = Inr f"
| "as_float (JInt n) = (if fits_float n then Inr (Float (of_int n)) else Inl OverflowError)"
| "as_float (JBool b) = Inr (Float (if b then 1 else 0))"
| "as_float _ = Inl TypeError"

text \<open>The builtin \<open>float(v)\<close>. Reading a string as a decimal literal is Python's own
  parser, a parameter here: \<open>None\<close> where \<open>float\<close> raises ValueError.\<close>

fun py_float :: "(string \<Rightarrow> pyfloat option) \<Rightarrow> json \<Rightarrow> error + pyfloat" where
  "py_float parse (JFloat f) = Inr f"
| "py_float parse (JInt n) = (if fits_float n then Inr (Float (of_int n)) else Inl OverflowError)"
| "py_float parse (JBool b) = Inr (Float (if b then 1 else 0))"
| "py_float parse (JStr s) = (case parse s of None \<Rightarrow> Inl ValueError | Some f \<Rightarrow> Inr f)"
| "py_float parse _ = Inl TypeError"

text \<open>Truth value of a parsed JSON value (\<open>if not x\<close>).\<close>

fun json_truthy :: "json \<Rightarrow> bool" where
  "json_truthy JNull = False"
| "json_truthy (JBool b) = b"
| "json_truthy (JInt n) = (n \<noteq> 0)"
| "json_truthy (JFloat f) = (float_value f \<noteq> 0)"
| "json_truthy (JStr s) = (s \<noteq> [])"
| "json_truthy (JArr xs) = (xs \<noteq> [])"
| "json_truthy (JObj kvs) = (kvs \<noteq> [])"

subsection \<open>Distance calculation (haversine formula)\<close>

definition radians :: "real \<Rightarrow> real" where
  "radians x = x * pi / 180"

definition py_sqrt :: "real \<Rightarrow> error + real" where
  "py_sqrt x = (if x < 0 then Inl ValueError else Inr (sqrt x))"

definition py_asin :: "real \<Rightarrow> error + real" where
  "py_asin x = (if x < - 1 \<or> 1 < x then Inl ValueError else Inr (arcsin x))"

text \<open>The argument of the square root in \<open>haversine_distance\<close>, on radians.\<close>

definition hav_a :: "real \<Rightarrow> real \<Rightarrow> real \<Rightarrow> real \<Rightarrow> real" where
  "hav_a lat1 lon1 lat2 lon2 =
     (let dlat = lat2 - lat1; dlon = lon2 - lon1
      in (sin (dlat / 2))\<^sup>2 + cos lat1 * cos lat2 * (sin (dlon / 2))\<^sup>2)"

definition haversine_distance :: "real \<Rightarrow> real \<Rightarrow> real \<Rightarrow> real \<Rightarrow> error + real" where
  "haversine_distance lat1 lon1 lat2 lon2 =
     (let a = hav_a (radians lat1) (radians lon1) (radians lat2) (radians lon2)
      in try_bind (py_sqrt a) (\<lambda>s.
         try_bind (py_asin s) (\<lambda>t.
         let c = 2 * t; r = 6371 in Inr (c * r))))"

subsection \<open>Rounding and formatting\<close>

text \<open>Round to the nearest integer, a tie to the even one: the rule of both
  \<open>round(x, 1)\<close> and the format specification \<open>.4f\<close>.\<close>

definition round_half_even :: "real \<Rightarrow> int" where
  "round_half_even x =
     (let f = \<lfloor>x\<rfloor>; d = x - of_int f
      in if d < 1 / 2 then f else if 1 / 2 < d then f + 1 else if even f then f else f + 1)"

text \<open>\<open>round(x, 1)\<close>.\<close>

definition py_round1 :: "real \<Rightarrow> real" where
  "py_round1 x = of_int (round_half_even (x * 10)) / 10"

definition digit_char :: "nat \<Rightarrow> char" where
  "digit_char d = ''0123456789'' ! d"

fun show_nat :: "nat \<Rightarrow> string" where
  "show_nat n = (if n < 10 then [digit_char n] else show_nat (n div 10) @ [digit_char (n mod 10)])"

declare show_nat.simps [simp del]

text \<open>The magnitude of \<open>x\<close> in ten-thousandths, rounded: the digits that \<open>.4f\<close> prints.\<close>

definition scaled4 :: "real \<Rightarrow> nat" where
  "scaled4 x = nat (round_half_even (\<bar>x\<bar> * 10000))"

text \<open>\<open>f"{x:.4f}"\<close>: the sign when the sign bit is set, integer part, point, four
  decimals of the rounded magnitude.\<close>

definition fmt4 :: "pyfloat \<Rightarrow> string" where
  "fmt4 x =
     (let n = scaled4 (float_value x)
      in (if signbit x then ''-'' else []) @ show_nat (n div 10000) @ ''.'' @
         [digit_char (n div 1000 mod 10), digit_char (n div 100 mod 10),
          digit_char (n div 10 mod 10), digit_char (n mod 10)])"

subsection \<open>Stations, the network and the trace\<close>

text \<open>A station dictionary \<open>{'name', 'lat', 'lon', 'distance_km'}\<close>. The name is
  whatever JSON value the provider sent. A coordinate is a number by the time a station
  is built (\<open>math.radians\<close> has accepted it), kept as the float it stands for.\<close>

record station =
  st_name :: json
  st_lat :: pyfloat
  st_lon :: pyfloat
  st_distance_km :: real

text \<open>\<open>requests.get(url, params=...)\<close>; headers and timeout are constants of the call.\<close>

datatype request = Get string "(string \<times> string) list"

text \<open>A response: its status code and its body as \<open>response.json()\<close> reads it,
  \<open>None\<close> when the body is not JSON.\<close>

record response =
  status_code :: int
  json_body :: "json option"

text \<open>The network: \<open>None\<close> when \<open>requests.get\<close> raises (no connection, timeout).\<close>

type_synonym network = "request \<Rightarrow> response option"

datatype diagnostic =
    Warning_FFVL_key
  | Error_querying string error
  | Note_BOM

datatype event = Requested request | Printed diagnostic

definition raise_for_status :: "response \<Rightarrow> error + unit" where
  "raise_for_status r =
     (if 400 \<le> status_code r \<and> status_code r < 600 then Inl (HTTPError (status_code r))
      else Inr ())"

definition response_json :: "response \<Rightarrow> error + json" where
  "response_json r = (case json_body r of None \<Rightarrow> Inl JSONDecodeError | Some j \<Rightarrow> Inr j)"

text \<open>\<open>response = requests.get(...); response.raise_for_status(); response.json()\<close>.\<close>

definition fetch_json :: "network \<Rightarrow> request \<Rightarrow> error + json" where
  "fetch_json net req =
     (case net req of
        None \<Rightarrow> Inl ConnectionError
      | Some r \<Rightarrow> try_bind (raise_for_status r) (\<lambda>_. response_json r))"

text \<open>The loop \<open>for x in xs: ...\<close> of an adapter, inside its \<open>try\<close>: the body skips the
  record, appends a station, or raises, which leaves the loop with the stations appended
  so far.\<close>

fun for_each ::
  "('a \<Rightarrow> error + station option) \<Rightarrow> 'a list \<Rightarrow> station list \<Rightarrow> station list \<times> error option"
where
  "for_each body [] stations = (stations, None)"
| "for_each body (x # xs) stations =
     (case body x of
        Inl e \<Rightarrow> (stations, Some e)
      | Inr None \<Rightarrow> for_each body xs stations
      | Inr (Some s) \<Rightarrow> for_each body xs (stations @ [s]))"

text \<open>\<open>except Exception as e: print(f"Error querying ...: {e}")\<close>, then
  \<open>return stations\<close>.\<close>

definition finish ::
  "string \<Rightarrow> event list \<Rightarrow> station list \<times> error option \<Rightarrow> station list \<times> event list"
where
  "finish who reqs r =
     (case r of
        (stations, None) \<Rightarrow> (stations, reqs)
      | (stations, Some e) \<Rightarrow> (stations, reqs @ [Printed (Error_querying who e)]))"

subsection \<open>API configuration\<close>

definition FFVL_API_KEY :: string where
  "FFVL_API_KEY = ''12fbb9720455a2abb825c29233ac8bd0''"

definition FFVL_BASE_URL :: string where
  "FFVL_BASE_URL = ''https://data.ffvl.fr/api/''"

definition PIOUPIOU_BASE_URL :: string where
  "PIOUPIOU_BASE_URL = ''http://api.pioupiou.fr/v1''"

definition AWC_METAR_URL :: string where
  "AWC_METAR_URL = ''https://aviationweather.gov/api/data/metar''"

definition NWS_BASE_URL :: string where
  "NWS_BASE_URL = ''https://api.weather.gov''"

definition SEARCH_RADIUS_KM :: real where
  "SEARCH_RADIUS_KM = 50"

subsection \<open>Weather provider queries\<close>

text \<open>\<open>haversine_distance\<close> called with the target and two values of a provider
  record: \<open>math.radians\<close> rejects what is not a number, the latitude first.\<close>

definition distance_to ::
  "real \<Rightarrow> real \<Rightarrow> json \<Rightarrow> json \<Rightarrow> error + (pyfloat \<times> pyfloat \<times> real)"
where
  "distance_to lat lon station_lat station_lon =
     try_bind (as_float station_lat) (\<lambda>slat.
     try_bind (as_float station_lon) (\<lambda>slon.
     try_bind (haversine_distance lat lon (float_value slat) (float_value slon)) (\<lambda>distance.
     Inr (slat, slon, distance))))"

text \<open>The body of the loop of \<open>query_ffvl\<close>.\<close>

definition ffvl_beacon ::
  "(string \<Rightarrow> pyfloat option) \<Rightarrow> real \<Rightarrow> real \<Rightarrow> real \<Rightarrow> json \<Rightarrow> error + station option"
where
  "ffvl_beacon parse lat lon radius_km beacon =
     try_bind (json_get beacon ''latitude'' (JInt 0)) (\<lambda>v.
     try_bind (py_float parse v) (\<lambda>beacon_lat.
     try_bind (json_get beacon ''longitude'' (JInt 0)) (\<lambda>w.
     try_bind (py_float parse w) (\<lambda>beacon_lon.
     try_bind (haversine_distance lat lon (float_value beacon_lat) (float_value beacon_lon))
       (\<lambda>distance.
     if distance \<le> radius_km then
       try_bind (json_get beacon ''nom'' (JStr ''Unknown'')) (\<lambda>nm.
       Inr (Some \<lparr>st_name = nm, st_lat = beacon_lat, st_lon = beacon_lon,
                  st_distance_km = py_round1 distance\<rparr>))
     else Inr None)))))"

definition ffvl_request :: request where
  "ffvl_request =
     Get FFVL_BASE_URL
       [(''base'', ''balises''), (''r'', ''list''), (''mode'', ''json''), (''key'', FFVL_API_KEY)]"

text \<open>What \<open>query_ffvl\<close> loops over: the response, parsed and iterated.\<close>

definition ffvl_records :: "network \<Rightarrow> error + json list" where
  "ffvl_records net = try_bind (fetch_json net ffvl_request) json_iter"

definition query_ffvl ::
  "network \<Rightarrow> (string \<Rightarrow> pyfloat option) \<Rightarrow> real \<Rightarrow> real \<Rightarrow> real \<Rightarrow>
     station list \<times> event list"
where
  "query_ffvl net parse lat lon radius_km =
     (if FFVL_API_KEY = [] \<or> FFVL_API_KEY = ''your_ffvl_api_key_here''
      then ([], [Printed Warning_FFVL_key])
      else
        (case ffvl_records net of
           Inl e \<Rightarrow> finish ''FFVL'' [Requested ffvl_request] ([], Some e)
         | Inr data \<Rightarrow>
             finish ''FFVL'' [Requested ffvl_request]
               (for_each (ffvl_beacon parse lat lon radius_km) data [])))"

text \<open>The body of the loop of \<open>query_pioupiou\<close>. \<open>py_str\<close> is Python's rendering of a
  value inside an f-string, a parameter.\<close>

definition pioupiou_station ::
  "(json \<Rightarrow> string) \<Rightarrow> real \<Rightarrow> real \<Rightarrow> real \<Rightarrow> json \<Rightarrow> error + station option"
where
  "pioupiou_station py_str lat lon radius_km st =
     try_bind (json_get st ''meta'' (JObj [])) (\<lambda>station_meta.
     try_bind (json_get station_meta ''latitude'' JNull) (\<lambda>station_lat.
     try_bind (json_get station_meta ''longitude'' JNull) (\<lambda>station_lon.
     if station_lat = JNull \<or> station_lon = JNull then Inr None
     else
       try_bind (distance_to lat lon station_lat station_lon) (\<lambda>(slat, slon, distance).
       if distance \<le> radius_km then
         try_bind (json_get st ''id'' (JStr ''Unknown'')) (\<lambda>ident.
         try_bind (json_get station_meta ''name'' (JStr (''Pioupiou '' @ py_str ident))) (\<lambda>nm.
         Inr (Some \<lparr>st_name = nm, st_lat = slat, st_lon = slon,
                    st_distance_km = py_round1 distance\<rparr>)))
       else Inr None))))"

definition pioupiou_request :: request where
  "pioupiou_request = Get (PIOUPIOU_BASE_URL @ ''/live-with-meta/all'') []"

definition pioupiou_records :: "network \<Rightarrow> error + json list" where
  "pioupiou_records net =
     try_bind (fetch_json net pioupiou_request) (\<lambda>data.
     try_bind (json_get data ''data'' (JArr [])) json_iter)"

definition query_pioupiou ::
  "network \<Rightarrow> (json \<Rightarrow> string) \<Rightarrow> real \<Rightarrow> real \<Rightarrow> real \<Rightarrow> station list \<times> event list"
where
  "query_pioupiou net py_str lat lon radius_km =
     (case pioupiou_records net of
        Inl e \<Rightarrow> finish ''Pioupiou'' [Requested pioupiou_request] ([], Some e)
      | Inr data \<Rightarrow>
          finish ''Pioupiou'' [Requested pioupiou_request]
            (for_each (pioupiou_station py_str lat lon radius_km) data []))"

text \<open>The bounding box of \<open>query_awc_metar\<close>: the two degree deltas. Dividing a float
  by zero raises.\<close>

definition bounding_box :: "real \<Rightarrow> real \<Rightarrow> error + (real \<times> real)" where
  "bounding_box lat radius_km =
     (let lat_delta = radius_km / 111;
          divisor = 111 * cos (radians lat)
      in if divisor = 0 then Inl ZeroDivisionError
         else Inr (lat_delta, radius_km / divisor))"

definition awc_request :: "(json \<Rightarrow> string) \<Rightarrow> real \<Rightarrow> real \<Rightarrow> real \<Rightarrow> real \<Rightarrow> request" where
  "awc_request py_str lat lon lat_delta lon_delta =
     Get AWC_METAR_URL
       [(''bbox'',
         py_str (JFloat (Float (lat - lat_delta))) @ '','' @
         py_str (JFloat (Float (lon - lon_delta))) @ '','' @
         py_str (JFloat (Float (lat + lat_delta))) @ '','' @
         py_str (JFloat (Float (lon + lon_delta)))),
        (''format'', ''json'')]"

text \<open>The body of the loop of \<open>query_awc_metar\<close>.\<close>

definition awc_station ::
  "(json \<Rightarrow> string) \<Rightarrow> real \<Rightarrow> real \<Rightarrow> real \<Rightarrow> json \<Rightarrow> error + station option"
where
  "awc_station py_str lat lon radius_km st =
     try_bind (json_get st ''lat'' JNull) (\<lambda>station_lat.
     try_bind (json_get st ''lon'' JNull) (\<lambda>station_lon.
     if station_lat = JNull \<or> station_lon = JNull then Inr None
     else
       try_bind (distance_to lat lon station_lat station_lon) (\<lambda>(slat, slon, distance).
       if distance \<le> radius_km then
         try_bind (json_get st ''name'' (JStr ''Unknown'')) (\<lambda>nm.
         try_bind (json_get st ''icaoId'' (JStr ''N/A'')) (\<lambda>icao.
         Inr (Some \<lparr>st_name = JStr (py_str nm @ '' ('' @ py_str icao @ '')''),
                    st_lat = slat, st_lon = slon, st_distance_km = py_round1 distance\<rparr>)))
       else Inr None)))"

definition query_awc_metar ::
  "network \<Rightarrow> (json \<Rightarrow> string) \<Rightarrow> real \<Rightarrow> real \<Rightarrow> real \<Rightarrow> station list \<times> event list"
where
  "query_awc_metar net py_str lat lon radius_km =
     (case bounding_box lat radius_km of
        Inl e \<Rightarrow> finish ''AWC METAR'' [] ([], Some e)
      | Inr (lat_delta, lon_delta) \<Rightarrow>
          (let req = awc_request py_str lat lon lat_delta lon_delta
           in case try_bind (fetch_json net req) json_iter of
                Inl e \<Rightarrow> finish ''AWC METAR'' [Requested req] ([], Some e)
              | Inr data \<Rightarrow>
                  finish ''AWC METAR'' [Requested req]
                    (for_each (awc_station py_str lat lon radius_km) data [])))"

text \<open>\<open>len(x)\<close> and \<open>x[i]\<close> on a parsed JSON value. A parsed dict has string keys
  only, so an integer key is never found.\<close>

fun json_len :: "json \<Rightarrow> error + nat" where
  "json_len (JArr xs) = Inr (length xs)"
| "json_len (JStr s) = Inr (length s)"
| "json_len (JObj kvs) = Inr (length kvs)"
| "json_len _ = Inl TypeError"

fun json_index :: "json \<Rightarrow> nat \<Rightarrow> error + json" where
  "json_index (JArr xs) i = (if i < length xs then Inr (xs ! i) else Inl IndexError)"
| "json_index (JStr s) i = (if i < length s then Inr (JStr [s ! i]) else Inl IndexError)"
| "json_index (JObj kvs) i = Inl KeyError"
| "json_index _ i = Inl TypeError"

text \<open>The quick geographic check of \<open>query_nws\<close>: continental US, Alaska, Hawaii.\<close>

definition nws_covers :: "real \<Rightarrow> real \<Rightarrow> bool" where
  "nws_covers lat lon \<longleftrightarrow>
     (- 125 \<le> lon \<and> lon \<le> - 67 \<and> 24 \<le> lat \<and> lat \<le> 50) \<or>
     (- 180 \<le> lon \<and> lon \<le> - 130 \<and> 51 \<le> lat \<and> lat \<le> 72) \<or>
     (- 178 \<le> lon \<and> lon \<le> - 154 \<and> 18 \<le> lat \<and> lat \<le> 29)"

text \<open>The body of the loop of \<open>query_nws\<close>.\<close>

definition nws_feature :: "real \<Rightarrow> real \<Rightarrow> real \<Rightarrow> json \<Rightarrow> error + station option" where
  "nws_feature lat lon radius_km station_url =
     try_bind (json_get station_url ''properties'' (JObj [])) (\<lambda>station_props.
     try_bind (json_get station_url ''geometry'' (JObj [])) (\<lambda>geometry.
     try_bind (json_get geometry ''coordinates'' (JArr [])) (\<lambda>coords.
     try_bind (json_len coords) (\<lambda>n.
     if n < 2 then Inr None
     else
       try_bind (json_index coords 0) (\<lambda>station_lon.
       try_bind (json_index coords 1) (\<lambda>station_lat.
       try_bind (distance_to lat lon station_lat station_lon) (\<lambda>(slat, slon, distance).
       if distance \<le> radius_km then
         try_bind (json_get station_props ''name'' (JStr ''Unknown'')) (\<lambda>nm.
         Inr (Some \<lparr>st_name = nm, st_lat = slat, st_lon = slon,
                    st_distance_km = py_round1 distance\<rparr>))
       else Inr None)))))))"

text \<open>The first request of \<open>query_nws\<close>. It is built after the geographic check, where
  neither coordinate of the target is a zero.\<close>

definition nws_points_request :: "real \<Rightarrow> real \<Rightarrow> request" where
  "nws_points_request lat lon =
     Get (NWS_BASE_URL @ ''/points/'' @ fmt4 (Float lat) @ '','' @ fmt4 (Float lon)) []"

text \<open>What the first response gives: the URL of the observation stations, after
  \<open>raise_for_status\<close> and \<open>json()\<close>.\<close>

definition nws_stations_url :: "response \<Rightarrow> error + json" where
  "nws_stations_url r =
     try_bind (raise_for_status r) (\<lambda>_.
     try_bind (response_json r) (\<lambda>data.
     try_bind (json_get data ''properties'' (JObj [])) (\<lambda>props.
     json_get props ''observationStations'' JNull)))"

text \<open>What the loop of \<open>query_nws\<close> runs over: the second response, parsed, and its
  \<open>features\<close> iterated.\<close>

definition nws_features :: "network \<Rightarrow> string \<Rightarrow> error + json list" where
  "nws_features net url =
     try_bind (fetch_json net (Get url [])) (\<lambda>stations_data.
     try_bind (json_get stations_data ''features'' (JArr [])) json_iter)"

text \<open>The second request of \<open>query_nws\<close> and what the loop runs over. A value that is
  not a string is no URL: \<open>requests.get\<close> raises before anything is sent.\<close>

definition nws_stations ::
  "network \<Rightarrow> real \<Rightarrow> real \<Rightarrow> real \<Rightarrow> event list \<Rightarrow> json \<Rightarrow> station list \<times> event list"
where
  "nws_stations net lat lon radius_km reqs stations_url =
     (case stations_url of
        JStr url \<Rightarrow>
          (let req = Get url []
           in case nws_features net url of
                Inl e \<Rightarrow> finish ''NWS'' (reqs @ [Requested req]) ([], Some e)
              | Inr features \<Rightarrow>
                  finish ''NWS'' (reqs @ [Requested req])
                    (for_each (nws_feature lat lon radius_km) features []))
      | _ \<Rightarrow> finish ''NWS'' reqs ([], Some InvalidURL))"

definition query_nws :: "network \<Rightarrow> real \<Rightarrow> real \<Rightarrow> real \<Rightarrow> station list \<times> event list" where
  "query_nws net lat lon radius_km =
     (if \<not> nws_covers lat lon then ([], [])
      else
        (let req = nws_points_request lat lon
         in case net req of
              None \<Rightarrow> finish ''NWS'' [Requested req] ([], Some ConnectionError)
            | Some r \<Rightarrow>
                if status_code r = 404 then ([], [Requested req])
                else
                  (case nws_stations_url r of
                     Inl e \<Rightarrow> finish ''NWS'' [Requested req] ([], Some e)
                   | Inr stations_url \<Rightarrow>
                       if \<not> json_truthy stations_url then ([], [Requested req])
                       else nws_stations net lat lon radius_km [Requested req] stations_url)))"

definition query_bom :: "real \<Rightarrow> real \<Rightarrow> real \<Rightarrow> station list \<times> event list" where
  "query_bom lat lon radius_km =
     (if \<not> (113 \<le> lon \<and> lon \<le> 154 \<and> - 44 \<le> lat \<and> lat \<le> - 10) then ([], [])
      else ([], [Printed Note_BOM]))"

subsection \<open>Main script: querying, aggregation and the report\<close>

text \<open>Step 2 of \<open>main\<close>: the dictionary \<open>providers\<close>, as its items in insertion order,
  and everything the five queries requested and printed.\<close>

definition query_providers ::
  "network \<Rightarrow> (string \<Rightarrow> pyfloat option) \<Rightarrow> (json \<Rightarrow> string) \<Rightarrow> real \<Rightarrow> real \<Rightarrow>
     (string \<times> station list) list \<times> event list"
where
  "query_providers net parse py_str lat lon =
     (let (s1, t1) = query_ffvl net parse lat lon SEARCH_RADIUS_KM;
          (s2, t2) = query_pioupiou net py_str lat lon SEARCH_RADIUS_KM;
          (s3, t3) = query_awc_metar net py_str lat lon SEARCH_RADIUS_KM;
          (s4, t4) = query_nws net lat lon SEARCH_RADIUS_KM;
          (s5, t5) = query_bom lat lon SEARCH_RADIUS_KM
      in ([(''FFVL Beacons'', s1), (''Pioupiou'', s2), (''AWC METAR'', s3), (''NWS'', s4),
           (''BOM'', s5)],
          t1 @ t2 @ t3 @ t4 @ t5))"

text \<open>\<open>f"{station['lat']:.4f},{station['lon']:.4f}"\<close>.\<close>

definition station_key :: "station \<Rightarrow> string" where
  "station_key st = fmt4 (st_lat st) @ '','' @ fmt4 (st_lon st)"

text \<open>Step 3: \<open>station_providers\<close> is a \<open>defaultdict(set)\<close>, a total function whose
  default is the empty set; \<open>all_stations\<close> is a dict, kept as its items in insertion
  order, which is the order \<open>sorted\<close> starts from.\<close>

record aggregation =
  station_providers :: "string \<Rightarrow> string set"
  all_stations :: "(string \<times> station) list"

definition aggregate_station :: "string \<Rightarrow> station \<Rightarrow> aggregation \<Rightarrow> aggregation" where
  "aggregate_station provider_name st agg =
     (let k = station_key st
      in \<lparr>station_providers =
            (station_providers agg)(k := insert provider_name (station_providers agg k)),
          all_stations =
            (if k \<in> set (map fst (all_stations agg)) then all_stations agg
             else all_stations agg @ [(k, st)])\<rparr>)"

definition aggregate :: "(string \<times> station list) list \<Rightarrow> aggregation" where
  "aggregate providers =
     fold (\<lambda>(provider_name, stations) agg. fold (aggregate_station provider_name) stations agg)
       providers \<lparr>station_providers = (\<lambda>_. {}), all_stations = []\<rparr>"

text \<open>The lines \<open>main\<close> prints from step 4 on, by their content.\<close>

datatype out_line =
    Results_summary
  | Total_unique nat
  | Provider_count string nat
  | Blank
  | No_stations_found
  | Rule_line
  | Table_title
  | Table_header "string list"
  | Table_separator "nat list"
  | Table_row string real "bool list"

text \<open>\<open>sorted(all_stations.items(), key=lambda x: x[1]['distance_km'])\<close>: a stable
  sort on the distance alone.\<close>

definition sorted_stations :: "aggregation \<Rightarrow> (string \<times> station) list" where
  "sorted_stations agg = sort_key (\<lambda>x. st_distance_km (snd x)) (all_stations agg)"

text \<open>One row of the table. Slicing and left-aligning the name work for a string
  only; any other JSON value raises TypeError.\<close>

definition table_row :: "string list \<Rightarrow> aggregation \<Rightarrow> string \<times> station \<Rightarrow> error + out_line" where
  "table_row provider_names agg x =
     (case st_name (snd x) of
        JStr s \<Rightarrow>
          Inr (Table_row (take 30 s) (st_distance_km (snd x))
                 (map (\<lambda>provider_name. provider_name \<in> station_providers agg (fst x))
                    provider_names))
      | _ \<Rightarrow> Inl TypeError)"

fun print_rows :: "('a \<Rightarrow> error + out_line) \<Rightarrow> 'a list \<Rightarrow> out_line list \<times> error option" where
  "print_rows row [] = ([], None)"
| "print_rows row (x # xs) =
     (case row x of
        Inl e \<Rightarrow> ([], Some e)
      | Inr l \<Rightarrow> (case print_rows row xs of (ls, r) \<Rightarrow> (l # ls, r)))"

text \<open>Steps 3 to 5 of \<open>main\<close>: what is printed, and the exception that ends the run
  early, if any.\<close>

definition report :: "(string \<times> station list) list \<Rightarrow> out_line list \<times> error option" where
  "report providers =
     (let agg = aggregate providers;
          summary =
            [Results_summary, Total_unique (length (all_stations agg))] @
            map (\<lambda>(provider_name, stations). Provider_count provider_name (length stations))
              providers @
            [Blank]
      in if all_stations agg = [] then (summary @ [No_stations_found], None)
         else
           (let provider_names = map fst providers;
                head =
                  [Rule_line, Table_title, Rule_line, Table_header provider_names,
                   Table_separator (map (\<lambda>p. length p + 2) provider_names)]
            in case print_rows (table_row provider_names agg) (sorted_stations agg) of
                 (rows, None) \<Rightarrow> (summary @ head @ rows @ [Blank], None)
               | (rows, Some e) \<Rightarrow> (summary @ head @ rows, Some e)))"

text \<open>What the adapters' loops admit: a station whose exact distance to the target is
  within the radius, stored with that distance rounded to one decimal.\<close>

definition admitted :: "real \<Rightarrow> real \<Rightarrow> real \<Rightarrow> station \<Rightarrow> bool" where
  "admitted lat lon radius_km s =
     (case haversine_distance lat lon (float_value (st_lat s)) (float_value (st_lon s)) of
        Inl e \<Rightarrow> False
      | Inr distance \<Rightarrow> distance \<le> radius_km \<and> st_distance_km s = py_round1 distance)"

text \<open>The lines of the table of step 5.\<close>

fun is_table_line :: "out_line \<Rightarrow> bool" where
  "is_table_line Table_title = True"
| "is_table_line (Table_header ps) = True"
| "is_table_line (Table_separator ws) = True"
| "is_table_line (Table_row n d cs) = True"
| "is_table_line _ = False"

text \<open>The station rows among the printed lines.\<close>

fun is_row :: "out_line \<Rightarrow> bool" where
  "is_row (Table_row n d cs) = True"
| "is_row _ = False"

subsection \<open>Helper facts\<close>

lemma try_bind_Inr [simp]: "try_bind (Inr x) f = f x"
  by (simp add: try_bind_def)

lemma try_bind_Inl [simp]: "try_bind (Inl e) f = Inl e"
  by (simp add: try_bind_def)

lemma try_bind_eq_Inr:
  "try_bind m f = Inr y \<longleftrightarrow> (\<exists>x. m = Inr x \<and> f x = Inr y)"
  by (cases m) simp_all

lemma sin_half_diff_sq: "(sin ((x - y) / 2))\<^sup>2 = (sin ((y - x) / 2))\<^sup>2" for x y :: real
proof -
  have e: "(x - y) / 2 = - ((y - x) / 2)"
    by (simp only: minus_divide_left minus_diff_eq)
  show ?thesis
    by (simp only: e sin_minus power2_minus)
qed

lemma hav_a_sym: "hav_a lat2 lon2 lat1 lon1 = hav_a lat1 lon1 lat2 lon2"
  by (simp add: hav_a_def Let_def mult.commute sin_half_diff_sq [of lat1 lat2]
      sin_half_diff_sq [of lon1 lon2])

lemma hav_a_alt:
  "hav_a lat1 lon1 lat2 lon2 =
     (1 - cos (lat1 - lat2)) / 2 +
     (cos (lat1 - lat2) + cos (lat1 + lat2)) / 2 * (sin ((lon2 - lon1) / 2))\<^sup>2"
proof -
  have h: "(sin (x / 2))\<^sup>2 = (1 - cos x) / 2" for x :: real
    using cos_double_sin [of "x / 2"] by simp
  have c: "cos (lat2 - lat1) = cos (lat1 - lat2)"
    using cos_minus [of "lat1 - lat2"] by simp
  show ?thesis
    by (simp add: hav_a_def Let_def h c cos_times_cos)
qed

lemma hav_a_bounds: "0 \<le> hav_a lat1 lon1 lat2 lon2 \<and> hav_a lat1 lon1 lat2 lon2 \<le> 1"
proof -
  define u where "u = cos (lat1 - lat2)"
  define v where "v = cos (lat1 + lat2)"
  define s where "s = (sin ((lon2 - lon1) / 2))\<^sup>2"
  have a: "hav_a lat1 lon1 lat2 lon2 = (1 - u) / 2 + (u + v) / 2 * s"
    by (simp add: hav_a_alt u_def v_def s_def)
  have s0: "0 \<le> s" by (simp add: s_def)
  have s1: "s \<le> 1"
    unfolding s_def
    using sin_cos_squared_add [of "(lon2 - lon1) / 2"] zero_le_power2 [of "cos ((lon2 - lon1) / 2)"]
    by linarith
  have u: "- 1 \<le> u" "u \<le> 1" by (simp_all add: u_def)
  have v: "- 1 \<le> v" "v \<le> 1" by (simp_all add: v_def)
  have p1: "0 \<le> (1 - u) * (1 - s)" using u s1 by (intro mult_nonneg_nonneg) simp_all
  have p2: "0 \<le> (1 + u) * (1 - s)" using u s1 by (intro mult_nonneg_nonneg) simp_all
  have p3: "0 \<le> (1 - v) * s" using v s0 by (intro mult_nonneg_nonneg) simp_all
  have p4: "0 \<le> (1 + v) * s" using v s0 by (intro mult_nonneg_nonneg) simp_all
  have e1: "(1 - u) + (u + v) * s = (1 - u) * (1 - s) + (1 + v) * s"
    by (simp add: algebra_simps)
  have e2: "2 - ((1 - u) + (u + v) * s) = (1 + u) * (1 - s) + (1 - v) * s"
    by (simp add: algebra_simps)
  have "0 \<le> (1 - u) + (u + v) * s"
    using p1 p4 e1 by linarith
  then have lo: "0 \<le> (1 - u) / 2 + (u + v) / 2 * s"
    by (simp add: field_simps)
  have "(1 - u) + (u + v) * s \<le> 2"
    using p2 p3 e2 by linarith
  then have hi: "(1 - u) / 2 + (u + v) / 2 * s \<le> 1"
    by (simp add: field_simps)
  show ?thesis using lo hi a by simp
qed

lemma haversine_distance_value:
  "haversine_distance lat1 lon1 lat2 lon2 =
     Inr (2 * arcsin (sqrt (hav_a (radians lat1) (radians lon1) (radians lat2) (radians lon2))) * 6371)"
proof -
  let ?a = "hav_a (radians lat1) (radians lon1) (radians lat2) (radians lon2)"
  have b: "0 \<le> ?a" "?a \<le> 1" using hav_a_bounds by simp_all
  have r: "0 \<le> sqrt ?a" "sqrt ?a \<le> 1" using b by simp_all
  have n: "\<not> ?a < 0" "\<not> sqrt ?a < - 1" "\<not> 1 < ?a"
    using b r by linarith+
  show ?thesis
    by (simp add: haversine_distance_def py_sqrt_def py_asin_def Let_def n)
qed

lemma cos_radians_pos: "- 90 < lat \<Longrightarrow> lat < 90 \<Longrightarrow> 0 < cos (radians lat)"
proof -
  assume a: "- 90 < lat" "lat < 90"
  have "pi * (- 90) < pi * lat" "pi * lat < pi * 90"
    using a pi_gt_zero by (simp_all only: mult_strict_left_mono)
  then have "- (pi / 2) < radians lat" "radians lat < pi / 2"
    by (simp_all add: radians_def field_simps)
  then show ?thesis by (rule cos_gt_zero_pi)
qed

lemma for_each_append:
  "for_each body (xs @ ys) acc =
     (case for_each body xs acc of
        (s, None) \<Rightarrow> for_each body ys s
      | (s, Some e) \<Rightarrow> (s, Some e))"
  by (induction xs arbitrary: acc) (auto split: sum.splits option.splits)

lemma for_each_stops:
  "body x = Inl e \<Longrightarrow> fst (for_each body (pre @ x # post) acc) = fst (for_each body pre acc)"
  by (simp add: for_each_append split: prod.splits option.splits)

lemma for_each_stops_error:
  "body x = Inl e \<Longrightarrow> snd (for_each body (pre @ x # post) acc) \<noteq> None"
  by (simp add: for_each_append split: prod.splits option.splits)

lemma for_each_all:
  "\<forall>s\<in>set acc. P s \<Longrightarrow> \<forall>x\<in>set xs. \<forall>s. body x = Inr (Some s) \<longrightarrow> P s \<Longrightarrow>
   \<forall>s\<in>set (fst (for_each body xs acc)). P s"
proof (induction xs arbitrary: acc)
  case Nil
  then show ?case by simp
next
  case (Cons x xs)
  have tl: "\<forall>y\<in>set xs. \<forall>s. body y = Inr (Some s) \<longrightarrow> P s"
    using Cons.prems(2) by simp
  show ?case
  proof (cases "body x")
    case (Inl e)
    then have "fst (for_each body (x # xs) acc) = acc" by simp
    then show ?thesis using Cons.prems(1) by (simp only:)
  next
    case (Inr r)
    show ?thesis
    proof (cases r)
      case None
      have "for_each body (x # xs) acc = for_each body xs acc"
        using Inr None by simp
      then show ?thesis using Cons.IH [OF Cons.prems(1) tl] by (simp only:)
    next
      case (Some t)
      have "P t" using Cons.prems(2) Inr Some by simp
      then have acc': "\<forall>s\<in>set (acc @ [t]). P s"
        using Cons.prems(1) by simp
      have "for_each body (x # xs) acc = for_each body xs (acc @ [t])"
        using Inr Some by simp
      then show ?thesis using Cons.IH [OF acc' tl] by (simp only:)
    qed
  qed
qed

lemma for_each_keeps:
  "s \<in> set acc \<Longrightarrow> s \<in> set (fst (for_each body xs acc))"
  by (induction xs arbitrary: acc) (auto split: sum.splits option.splits)

lemma for_each_includes:
  "snd (for_each body pre acc) = None \<Longrightarrow> body x = Inr (Some s) \<Longrightarrow>
   s \<in> set (fst (for_each body (pre @ x # post) acc))"
  by (cases "for_each body pre acc")
     (simp add: for_each_append for_each_keeps split: option.splits)

lemma fst_finish [simp]: "fst (finish who reqs r) = fst r"
  by (simp add: finish_def split: prod.splits option.splits)

lemma round_half_even_near: "\<bar>of_int (round_half_even x) - x\<bar> \<le> 1 / 2"
proof -
  have "of_int \<lfloor>x\<rfloor> \<le> x" "x < of_int \<lfloor>x\<rfloor> + 1"
    by linarith+
  then show ?thesis
    by (auto simp: round_half_even_def Let_def)
qed

lemma py_round1_near: "\<bar>py_round1 x - x\<bar> \<le> 1 / 20"
  using round_half_even_near [of "x * 10"] by (simp add: py_round1_def field_simps)

lemma admitted_bound:
  assumes "admitted lat lon radius_km s"
  shows "st_distance_km s \<le> radius_km + 1 / 20"
proof -
  obtain d where d: "d \<le> radius_km" "st_distance_km s = py_round1 d"
    using assms by (auto simp: admitted_def split: sum.splits)
  have "py_round1 d - d \<le> 1 / 20"
    using py_round1_near [of d] by linarith
  with d show ?thesis by linarith
qed

lemma distance_to_Inr:
  "distance_to lat lon a b = Inr (slat, slon, d) \<Longrightarrow>
   haversine_distance lat lon (float_value slat) (float_value slon) = Inr d"
  by (auto simp: distance_to_def try_bind_eq_Inr)

lemma ffvl_beacon_admitted:
  "ffvl_beacon parse lat lon radius_km b = Inr (Some s) \<Longrightarrow> admitted lat lon radius_km s"
  by (auto simp: ffvl_beacon_def try_bind_eq_Inr admitted_def split: if_splits)

lemma pioupiou_station_admitted:
  "pioupiou_station py_str lat lon radius_km b = Inr (Some s) \<Longrightarrow> admitted lat lon radius_km s"
  by (auto simp: pioupiou_station_def try_bind_eq_Inr admitted_def
      split: if_splits dest!: distance_to_Inr)

lemma awc_station_admitted:
  "awc_station py_str lat lon radius_km b = Inr (Some s) \<Longrightarrow> admitted lat lon radius_km s"
  by (auto simp: awc_station_def try_bind_eq_Inr admitted_def
      split: if_splits dest!: distance_to_Inr)

lemma nws_feature_admitted:
  "nws_feature lat lon radius_km b = Inr (Some s) \<Longrightarrow> admitted lat lon radius_km s"
  by (auto simp: nws_feature_def try_bind_eq_Inr admitted_def
      split: if_splits dest!: distance_to_Inr)

lemma for_each_admitted:
  assumes "\<And>x s. body x = Inr (Some s) \<Longrightarrow> admitted lat lon radius_km s"
  shows "\<forall>s\<in>set (fst (for_each body xs [])). admitted lat lon radius_km s"
  using assms by (intro for_each_all) auto

lemma query_ffvl_admitted:
  "\<forall>s\<in>set (fst (query_ffvl net parse lat lon radius_km)). admitted lat lon radius_km s"
  using for_each_admitted [of "ffvl_beacon parse lat lon radius_km", OF ffvl_beacon_admitted]
  by (simp add: query_ffvl_def split: sum.splits)

lemma query_pioupiou_admitted:
  "\<forall>s\<in>set (fst (query_pioupiou net py_str lat lon radius_km)). admitted lat lon radius_km s"
  using for_each_admitted [of "pioupiou_station py_str lat lon radius_km", OF pioupiou_station_admitted]
  by (simp add: query_pioupiou_def split: sum.splits)

lemma query_awc_metar_admitted:
  "\<forall>s\<in>set (fst (query_awc_metar net py_str lat lon radius_km)). admitted lat lon radius_km s"
  using for_each_admitted [of "awc_station py_str lat lon radius_km", OF awc_station_admitted]
  by (simp add: query_awc_metar_def Let_def split: sum.splits prod.splits)

lemma nws_stations_admitted:
  "\<forall>s\<in>set (fst (nws_stations net lat lon radius_km reqs u)). admitted lat lon radius_km s"
  using for_each_admitted [of "nws_feature lat lon radius_km", OF nws_feature_admitted]
  by (simp add: nws_stations_def Let_def split: sum.splits json.splits)

lemma query_nws_admitted:
  "\<forall>s\<in>set (fst (query_nws net lat lon radius_km)). admitted lat lon radius_km s"
  using nws_stations_admitted [of net lat lon radius_km]
  by (simp add: query_nws_def Let_def split: sum.splits option.splits)

lemma query_bom_empty: "fst (query_bom lat lon radius_km) = []"
  by (simp add: query_bom_def)

lemma haversine_same_point: "haversine_distance lat lon lat lon = Inr 0"
  by (simp add: haversine_distance_value hav_a_def)

lemma round_half_even_0: "round_half_even 0 = 0"
  by (simp add: round_half_even_def)

lemma py_round1_0: "py_round1 0 = 0"
  by (simp add: py_round1_def round_half_even_0)

lemma pi_ge_3: "3 \<le> pi"
proof -
  have "sin (pi / 6) \<le> pi / 6"
    by (rule sin_x_le_x) simp
  then show ?thesis by (simp add: sin_30)
qed

lemma haversine_equator_example: "haversine_distance 0 0 0 (18 / 31855) = Inr (pi / 50)"
proof -
  let ?y = "pi / 637100"
  have y: "0 < ?y" "?y < pi" "- (pi / 2) \<le> ?y" "?y \<le> pi / 2"
    using pi_gt_zero by simp_all
  have a: "hav_a (radians 0) (radians 0) (radians 0) (radians (18 / 31855)) = (sin ?y)\<^sup>2"
    by (simp add: hav_a_def radians_def)
  have s: "0 < sin ?y" using y(1,2) by (rule sin_gt_zero)
  have q: "sqrt ((sin ?y)\<^sup>2) = sin ?y" using s by simp
  have r: "arcsin (sin ?y) = ?y" using y(3,4) by (rule arcsin_sin)
  show ?thesis
    by (simp only: haversine_distance_value a q r) simp
qed

lemma py_round1_example: "py_round1 (pi / 50) = 1 / 10"
proof -
  have b: "3 / 5 \<le> pi / 5" "pi / 5 < 4 / 5"
    using pi_ge_3 pi_less_4 by simp_all
  have f: "\<lfloor>pi / 5\<rfloor> = 0"
    using b by (intro floor_unique) simp_all
  have "round_half_even (pi / 5) = 1"
    using b by (simp add: round_half_even_def f Let_def)
  then show ?thesis
    by (simp add: py_round1_def)
qed

lemma bounding_box_value:
  assumes "- 90 < lat" "lat < 90"
  shows "bounding_box lat radius_km =
           Inr (radius_km / 111, radius_km / (111 * cos (radians lat)))"
  using cos_radians_pos [OF assms] by (simp add: bounding_box_def Let_def)

lemma fetch_ok:
  "net req = Some \<lparr>status_code = 200, json_body = Some j\<rparr> \<Longrightarrow> fetch_json net req = Inr j"
  by (simp add: fetch_json_def raise_for_status_def response_json_def)

lemma ffvl_key_configured:
  "\<not> (FFVL_API_KEY = [] \<or> FFVL_API_KEY = ''your_ffvl_api_key_here'')"
  by (simp add: FFVL_API_KEY_def)

lemma query_ffvl_unfold:
  "query_ffvl net parse lat lon radius_km =
     (case ffvl_records net of
        Inl e \<Rightarrow> finish ''FFVL'' [Requested ffvl_request] ([], Some e)
      | Inr data \<Rightarrow>
          finish ''FFVL'' [Requested ffvl_request]
            (for_each (ffvl_beacon parse lat lon radius_km) data []))"
  unfolding query_ffvl_def using ffvl_key_configured by (simp only: if_False)

lemma ffvl_equator_example:
  "query_ffvl
     (\<lambda>req. Some \<lparr>status_code = 200,
        json_body = Some (JArr [JObj [(''latitude'', JFloat (Float 0)), (''longitude'', JFloat (Float (18 / 31855)))]])\<rparr>)
     parse 0 0 (2 / 25)
   = ([\<lparr>st_name = JStr ''Unknown'', st_lat = Float 0, st_lon = Float (18 / 31855), st_distance_km = 1 / 10\<rparr>],
      [Requested ffvl_request])"
proof -
  have le: "pi \<le> 4"
    using pi_less_4 by simp
  show ?thesis
    by (simp add: query_ffvl_unfold ffvl_records_def fetch_ok ffvl_beacon_def
        haversine_equator_example py_round1_example le finish_def)
qed

lemma for_each_skip:
  "body x = Inr None \<Longrightarrow> for_each body (pre @ x # post) acc = for_each body (pre @ post) acc"
  by (simp add: for_each_append split: prod.splits option.splits)

lemma aggregate_no_stations:
  "\<forall>p\<in>set providers. snd p = [] \<Longrightarrow>
   fold (\<lambda>(provider_name, stations) agg. fold (aggregate_station provider_name) stations agg)
     providers agg = agg"
  by (induction providers arbitrary: agg) (auto simp: case_prod_beta)

lemma provider_counts_empty:
  "\<forall>p\<in>set providers. snd p = [] \<Longrightarrow>
   map (\<lambda>(provider_name, stations). Provider_count provider_name (length stations)) providers =
   map (\<lambda>p. Provider_count (fst p) 0) providers"
  by (induction providers) (auto simp: case_prod_beta)

lemma ffvl_beacon_value:
  assumes "py_float parse (case map_of kvs ''latitude'' of None \<Rightarrow> JInt 0 | Some v \<Rightarrow> v) = Inr blat"
    and "py_float parse (case map_of kvs ''longitude'' of None \<Rightarrow> JInt 0 | Some v \<Rightarrow> v) = Inr blon"
    and "haversine_distance lat lon (float_value blat) (float_value blon) = Inr d"
    and "d \<le> radius_km"
  shows "ffvl_beacon parse lat lon radius_km (JObj kvs) =
     Inr (Some \<lparr>st_name = (case map_of kvs ''nom'' of None \<Rightarrow> JStr ''Unknown'' | Some v \<Rightarrow> v),
                st_lat = blat, st_lon = blon, st_distance_km = py_round1 d\<rparr>)"
  using assms by (simp add: ffvl_beacon_def)

lemma query_ffvl_includes:
  assumes "ffvl_records net = Inr (pre @ b # post)"
    and "snd (for_each (ffvl_beacon parse lat lon radius_km) pre []) = None"
    and "ffvl_beacon parse lat lon radius_km b = Inr (Some s)"
  shows "s \<in> set (fst (query_ffvl net parse lat lon radius_km))"
  using for_each_includes [OF assms(2,3), of post] assms(1)
  by (simp add: query_ffvl_unfold)

lemma pioupiou_station_skips:
  assumes "json_get st ''meta'' (JObj []) = Inr (JObj meta)"
    and "map_of meta ''latitude'' = None \<or> map_of meta ''longitude'' = None"
  shows "pioupiou_station py_str lat lon radius_km st = Inr None"
  using assms by (auto simp: pioupiou_station_def)



















lemma aggregate_station_providers:
  "station_providers (aggregate_station p st agg) k =
     (if k = station_key st then insert p (station_providers agg k) else station_providers agg k)"
  by (simp add: aggregate_station_def Let_def)

lemma aggregate_station_keys:
  "fst ` set (all_stations (aggregate_station p st agg)) =
     insert (station_key st) (fst ` set (all_stations agg))"
  by (auto simp: aggregate_station_def Let_def)

lemma fold_aggregate_station_providers:
  "station_providers (fold (aggregate_station p) sts agg) k =
     station_providers agg k \<union> (if k \<in> station_key ` set sts then {p} else {})"
proof (induction sts arbitrary: agg)
  case Nil
  show ?case by simp
next
  case (Cons st sts)
  show ?case
    by (auto simp: Cons.IH aggregate_station_providers)
qed

lemma fold_aggregate_station_keys:
  "fst ` set (all_stations (fold (aggregate_station p) sts agg)) =
     fst ` set (all_stations agg) \<union> station_key ` set sts"
proof (induction sts arbitrary: agg)
  case Nil
  show ?case by simp
next
  case (Cons st sts)
  show ?case
    by (simp add: Cons.IH aggregate_station_keys)
qed

lemma fold_providers_station_providers:
  "station_providers
     (fold (\<lambda>(provider_name, stations) agg. fold (aggregate_station provider_name) stations agg)
        ps agg) k =
   station_providers agg k \<union> {p. \<exists>sts. (p, sts) \<in> set ps \<and> k \<in> station_key ` set sts}"
proof (induction ps arbitrary: agg)
  case Nil
  show ?case by simp
next
  case (Cons q ps)
  obtain p sts where q: "q = (p, sts)" by (cases q)
  show ?case
    unfolding q by (auto simp: Cons.IH fold_aggregate_station_providers)
qed

lemma fold_providers_keys:
  "fst ` set (all_stations
     (fold (\<lambda>(provider_name, stations) agg. fold (aggregate_station provider_name) stations agg)
        ps agg)) =
   fst ` set (all_stations agg) \<union> (\<Union>q\<in>set ps. station_key ` set (snd q))"
proof (induction ps arbitrary: agg)
  case Nil
  show ?case by simp
next
  case (Cons q ps)
  obtain p sts where q: "q = (p, sts)" by (cases q)
  show ?case
    unfolding q by (auto simp: Cons.IH fold_aggregate_station_keys)
qed

lemma aggregate_station_providers_eq:
  "station_providers (aggregate ps) k =
     {p. \<exists>sts. (p, sts) \<in> set ps \<and> k \<in> station_key ` set sts}"
  by (simp add: aggregate_def fold_providers_station_providers)

lemma aggregate_keys_eq:
  "fst ` set (all_stations (aggregate ps)) = (\<Union>q\<in>set ps. station_key ` set (snd q))"
  by (simp add: aggregate_def fold_providers_keys)

lemma find_over_append:
  "find P (xs @ ys) = (case find P xs of None \<Rightarrow> find P ys | Some x \<Rightarrow> Some x)"
  by (induction xs) simp_all

lemma aggregate_station_first_seen:
  "map_of (all_stations (aggregate_station p st agg)) k =
     (case map_of (all_stations agg) k of
        Some s \<Rightarrow> Some s
      | None \<Rightarrow> if station_key st = k then Some st else None)"
proof (cases "station_key st \<in> fst ` set (all_stations agg)")
  case True
  then have "map_of (all_stations agg) (station_key st) \<noteq> None"
    by (simp add: map_of_eq_None_iff)
  with True show ?thesis
    by (auto simp: aggregate_station_def Let_def split: option.splits)
next
  case False
  then have "map_of (all_stations agg) (station_key st) = None"
    by (simp add: map_of_eq_None_iff)
  with False show ?thesis
    by (auto simp: aggregate_station_def Let_def map_add_def split: option.splits)
qed

lemma fold_aggregate_station_first_seen:
  "map_of (all_stations (fold (aggregate_station p) sts agg)) k =
     (case map_of (all_stations agg) k of
        Some s \<Rightarrow> Some s
      | None \<Rightarrow> find (\<lambda>s. station_key s = k) sts)"
proof (induction sts arbitrary: agg)
  case Nil
  show ?case by (simp split: option.splits)
next
  case (Cons st sts)
  show ?case
    by (simp add: Cons.IH aggregate_station_first_seen split: option.splits)
qed

lemma fold_providers_first_seen:
  "map_of (all_stations
     (fold (\<lambda>(provider_name, stations) agg. fold (aggregate_station provider_name) stations agg)
        ps agg)) k =
     (case map_of (all_stations agg) k of
        Some s \<Rightarrow> Some s
      | None \<Rightarrow> find (\<lambda>s. station_key s = k) (concat (map snd ps)))"
proof (induction ps arbitrary: agg)
  case Nil
  show ?case by (simp split: option.splits)
next
  case (Cons q ps)
  obtain p sts where q: "q = (p, sts)" by (cases q)
  show ?case
    unfolding q
    by (simp add: Cons.IH fold_aggregate_station_first_seen find_over_append split: option.splits)
qed

lemma aggregate_first_seen:
  "map_of (all_stations (aggregate ps)) k = find (\<lambda>s. station_key s = k) (concat (map snd ps))"
  by (simp add: aggregate_def fold_providers_first_seen)

lemma fmt4_0: "fmt4 (Float 0) = ''0.0000''"
  by (simp add: fmt4_def scaled4_def round_half_even_def show_nat.simps digit_char_def)

lemma fmt4_small: "fmt4 (Float (1 / 25000)) = ''0.0000''"
  by (simp add: fmt4_def scaled4_def round_half_even_def show_nat.simps digit_char_def)

lemma fmt4_1: "fmt4 (Float 1) = ''1.0000''"
  by (simp add: fmt4_def scaled4_def round_half_even_def show_nat.simps digit_char_def)

lemma station_key_origin: "station_key \<lparr>st_name = n, st_lat = Float 0, st_lon = Float 0, st_distance_km = d\<rparr> = ''0.0000,0.0000''"
  by (simp add: station_key_def fmt4_0)

lemma station_key_near_origin:
  "station_key \<lparr>st_name = n, st_lat = Float (1 / 25000), st_lon = Float 0, st_distance_km = d\<rparr> = ''0.0000,0.0000''"
  by (simp add: station_key_def fmt4_0 fmt4_small)

lemma station_key_north:
  "station_key \<lparr>st_name = n, st_lat = Float 1, st_lon = Float 0, st_distance_km = d\<rparr> = ''1.0000,0.0000''"
  by (simp add: station_key_def fmt4_0 fmt4_1)

lemma table_row_is_row: "table_row provider_names agg x = Inr l \<Longrightarrow> is_row l"
  by (cases "st_name (snd x)") (auto simp: table_row_def)

lemma print_table_rows_are_rows:
  "filter is_row (fst (print_rows (table_row provider_names agg) xs)) =
     fst (print_rows (table_row provider_names agg) xs)"
proof (induction xs)
  case Nil
  show ?case by simp
next
  case (Cons x xs)
  show ?case
  proof (cases "table_row provider_names agg x")
    case (Inl e)
    then show ?thesis by simp
  next
    case (Inr l)
    have l: "is_row l" using Inr by (rule table_row_is_row)
    have pr: "print_rows (table_row provider_names agg) (x # xs) =
        (l # fst (print_rows (table_row provider_names agg) xs),
         snd (print_rows (table_row provider_names agg) xs))"
      using Inr by (simp split: prod.splits)
    show ?thesis by (simp only: pr) (simp add: l Cons.IH)
  qed
qed

lemma filter_provider_counts:
  "filter is_row (map (\<lambda>(provider_name, stations). Provider_count provider_name (length stations))
     providers) = []"
  by (induction providers) (simp_all add: case_prod_beta)

lemma report_empty:
  "all_stations (aggregate providers) = [] \<Longrightarrow>
   report providers =
     ([Results_summary, Total_unique 0] @
      map (\<lambda>(provider_name, stations). Provider_count provider_name (length stations)) providers @
      [Blank, No_stations_found], None)"
  by (simp add: report_def Let_def)

lemma report_table:
  "all_stations (aggregate providers) \<noteq> [] \<Longrightarrow>
   print_rows (table_row (map fst providers) (aggregate providers))
     (sorted_stations (aggregate providers)) = (rows, r) \<Longrightarrow>
   report providers =
     ([Results_summary, Total_unique (length (all_stations (aggregate providers)))] @
      map (\<lambda>(provider_name, stations). Provider_count provider_name (length stations)) providers @
      [Blank, Rule_line, Table_title, Rule_line, Table_header (map fst providers),
       Table_separator (map (\<lambda>p. length p + 2) (map fst providers))] @
      rows @ (if r = None then [Blank] else []), r)"
  by (cases r) (simp_all add: report_def Let_def)

lemma report_rows:
  "filter is_row (fst (report providers)) =
     fst (print_rows (table_row (map fst providers) (aggregate providers))
            (sorted_stations (aggregate providers)))"
proof (cases "all_stations (aggregate providers) = []")
  case True
  then show ?thesis
    by (simp add: report_empty filter_provider_counts sorted_stations_def)
next
  case False
  obtain rows r where p: "print_rows (table_row (map fst providers) (aggregate providers))
     (sorted_stations (aggregate providers)) = (rows, r)"
    by (cases "print_rows (table_row (map fst providers) (aggregate providers))
     (sorted_stations (aggregate providers))")
  have f: "filter is_row rows = rows"
    using print_table_rows_are_rows [of "map fst providers" "aggregate providers"
      "sorted_stations (aggregate providers)"] p by simp
  show ?thesis
    by (simp add: report_table [OF False p] p filter_provider_counts f)
qed

lemma report_error:
  "snd (report providers) =
     snd (print_rows (table_row (map fst providers) (aggregate providers))
            (sorted_stations (aggregate providers)))"
proof (cases "all_stations (aggregate providers) = []")
  case True
  then show ?thesis
    by (simp add: report_empty sorted_stations_def)
next
  case False
  obtain rows r where p: "print_rows (table_row (map fst providers) (aggregate providers))
     (sorted_stations (aggregate providers)) = (rows, r)"
    by (cases "print_rows (table_row (map fst providers) (aggregate providers))
     (sorted_stations (aggregate providers))")
  show ?thesis
    by (simp add: report_table [OF False p] p)
qed

lemma sorted_stations_sorted:
  "sorted (map (\<lambda>x. st_distance_km (snd x)) (sorted_stations agg))"
  by (simp add: sorted_stations_def)

lemma sorted_stations_stable:
  "filter (\<lambda>x. st_distance_km (snd x) = d) (sorted_stations agg) =
   filter (\<lambda>x. st_distance_km (snd x) = d) (all_stations agg)"
  by (simp add: sorted_stations_def sort_key_stable)

lemma digit_cases:
  "d < 10 \<Longrightarrow> d = 0 \<or> d = 1 \<or> d = 2 \<or> d = 3 \<or> d = 4 \<or> d = 5 \<or> d = 6 \<or> d = 7 \<or> d = 8 \<or> d = (9::nat)"
  by arith

lemma digit_char_inj:
  assumes "d < 10" and "e < 10" and "digit_char d = digit_char e"
  shows "d = e"
  using digit_cases [OF assms(1)] digit_cases [OF assms(2)] assms(3)
  by (elim disjE) (simp_all add: digit_char_def)

lemma digit_char_plain:
  assumes "d < 10"
  shows "digit_char d \<noteq> CHR '','' \<and> digit_char d \<noteq> CHR ''.'' \<and> digit_char d \<noteq> CHR ''-''"
  using digit_cases [OF assms]
  by (elim disjE) (simp_all add: digit_char_def)

lemma show_nat_small: "n < 10 \<Longrightarrow> show_nat n = [digit_char n]"
  by (simp add: show_nat.simps)

lemma show_nat_large:
  "\<not> n < 10 \<Longrightarrow> show_nat n = show_nat (n div 10) @ [digit_char (n mod 10)]"
  by (subst show_nat.simps) simp

lemma show_nat_nonempty: "show_nat n \<noteq> []"
  by (cases "n < 10") (simp_all add: show_nat_small show_nat_large)

lemma show_nat_plain:
  "CHR '','' \<notin> set (show_nat n) \<and> CHR ''.'' \<notin> set (show_nat n) \<and> CHR ''-'' \<notin> set (show_nat n)"
proof (induction n rule: show_nat.induct)
  case (1 n)
  show ?case
  proof (cases "n < 10")
    case True
    then show ?thesis
      using digit_char_plain [of n] by (auto simp: show_nat_small)
  next
    case False
    have m: "n mod 10 < 10" by simp
    have e: "set (show_nat n) = insert (digit_char (n mod 10)) (set (show_nat (n div 10)))"
      by (simp only: show_nat_large [OF False]) simp
    show ?thesis
      using "1.IH" [OF False] digit_char_plain [OF m]
      by (simp only: e) auto
  qed
qed

lemma show_nat_inj: "show_nat n = show_nat m \<Longrightarrow> n = m"
proof (induction n arbitrary: m rule: show_nat.induct)
  case (1 n)
  show ?case
  proof (cases "n < 10")
    case True
    note n = this
    show ?thesis
    proof (cases "m < 10")
      case True
      with n "1.prems" show ?thesis
        by (simp add: show_nat_small digit_char_inj)
    next
      case False
      with n "1.prems" show_nat_nonempty [of "m div 10"] show ?thesis
        by (simp add: show_nat_small show_nat_large)
    qed
  next
    case False
    note n = this
    show ?thesis
    proof (cases "m < 10")
      case True
      with n "1.prems" show_nat_nonempty [of "n div 10"] show ?thesis
        by (simp add: show_nat_small show_nat_large)
    next
      case False
      from n False "1.prems"
      have e: "show_nat (n div 10) = show_nat (m div 10)" "digit_char (n mod 10) = digit_char (m mod 10)"
        by (simp_all add: show_nat_large)
      have "n div 10 = m div 10"
        using "1.IH" [OF n e(1)] .
      moreover have "n mod 10 = m mod 10"
        using e(2) by (intro digit_char_inj) simp_all
      ultimately show ?thesis
        by (metis div_mult_mod_eq)
    qed
  qed
qed

lemma split_at_char:
  "c \<notin> set a \<Longrightarrow> c \<notin> set a' \<Longrightarrow> a @ c # b = a' @ c # b' \<Longrightarrow> a = a' \<and> b = b'"
proof (induction a arbitrary: a')
  case Nil
  then show ?case by (cases a') auto
next
  case (Cons x a)
  show ?case
  proof (cases a')
    case Nil
    with Cons.prems show ?thesis by auto
  next
    case (Cons y as)
    with Cons.prems Cons.IH [of as] show ?thesis by auto
  qed
qed

lemma mod_step: "(k::nat) div b mod (10 * c) = 10 * (k div (b * 10) mod c) + k div b mod 10"
  by (simp add: mod_mult2_eq div_mult2_eq)

lemma decimals_inj:
  assumes "[digit_char (n div 1000 mod 10), digit_char (n div 100 mod 10),
            digit_char (n div 10 mod 10), digit_char (n mod 10)] =
           [digit_char (m div 1000 mod 10), digit_char (m div 100 mod 10),
            digit_char (m div 10 mod 10), digit_char (m mod 10)]"
  shows "n mod 10000 = m mod 10000"
proof -
  have a: "n div 1000 mod 10 = m div 1000 mod 10"
    using assms by (intro digit_char_inj) simp_all
  have b: "n div 100 mod 10 = m div 100 mod 10"
    using assms by (intro digit_char_inj) simp_all
  have c: "n div 10 mod 10 = m div 10 mod 10"
    using assms by (intro digit_char_inj) simp_all
  have d: "n mod 10 = m mod 10"
    using assms by (intro digit_char_inj) simp_all
  have e1: "k div 100 mod 100 = 10 * (k div 1000 mod 10) + k div 100 mod 10" for k :: nat
    using mod_step [of k 100 10] by simp
  have e2: "k div 10 mod 1000 = 10 * (k div 100 mod 100) + k div 10 mod 10" for k :: nat
    using mod_step [of k 10 100] by simp
  have e3: "k mod 10000 = 10 * (k div 10 mod 1000) + k mod 10" for k :: nat
    using mod_step [of k 1 1000] by simp
  have "n div 100 mod 100 = m div 100 mod 100"
    by (simp only: e1 a b)
  then have "n div 10 mod 1000 = m div 10 mod 1000"
    by (simp only: e2 c)
  then show ?thesis
    by (simp only: e3 d)
qed

lemma round_half_even_nonneg: "0 \<le> x \<Longrightarrow> 0 \<le> round_half_even x"
proof -
  assume "0 \<le> x"
  then have "0 \<le> \<lfloor>x\<rfloor>" by simp
  then show ?thesis by (simp add: round_half_even_def Let_def)
qed

lemma scaled4_near: "\<bar>real (scaled4 x) - \<bar>x\<bar> * 10000\<bar> \<le> 1 / 2"
proof -
  have "0 \<le> round_half_even (\<bar>x\<bar> * 10000)"
    by (rule round_half_even_nonneg) simp
  then have "real (scaled4 x) = of_int (round_half_even (\<bar>x\<bar> * 10000))"
    by (simp add: scaled4_def)
  then show ?thesis
    using round_half_even_near [of "\<bar>x\<bar> * 10000"] by simp
qed

lemma same_digits_close:
  assumes "(x \<le> 0 \<and> y \<le> 0) \<or> (0 \<le> x \<and> 0 \<le> y)" and "scaled4 x = scaled4 y"
  shows "\<bar>x - y\<bar> \<le> 1 / 10000"
proof -
  have "\<bar>\<bar>x\<bar> * 10000 - \<bar>y\<bar> * 10000\<bar> \<le> 1"
    using scaled4_near [of x] scaled4_near [of y] assms(2) by linarith
  then have "\<bar>\<bar>x\<bar> - \<bar>y\<bar>\<bar> \<le> 1 / 10000"
    by linarith
  moreover have "\<bar>x - y\<bar> = \<bar>\<bar>x\<bar> - \<bar>y\<bar>\<bar>"
    using assms(1) by linarith
  ultimately show ?thesis by simp
qed

lemma signbit_value: "signbit x \<Longrightarrow> float_value x \<le> 0" "\<not> signbit x \<Longrightarrow> 0 \<le> float_value x"
  by (cases x; simp)+

lemma same_sign_values:
  "signbit x = signbit y \<Longrightarrow>
   (float_value x \<le> 0 \<and> float_value y \<le> 0) \<or> (0 \<le> float_value x \<and> 0 \<le> float_value y)"
  using signbit_value [of x] signbit_value [of y] by (cases "signbit x") simp_all

lemma fmt4_unsigned:
  "\<not> signbit x \<Longrightarrow>
   fmt4 x = show_nat (scaled4 (float_value x) div 10000) @ CHR ''.'' #
     [digit_char (scaled4 (float_value x) div 1000 mod 10),
      digit_char (scaled4 (float_value x) div 100 mod 10),
      digit_char (scaled4 (float_value x) div 10 mod 10),
      digit_char (scaled4 (float_value x) mod 10)]"
  by (simp add: fmt4_def Let_def)

lemma fmt4_signed:
  "signbit x \<Longrightarrow>
   fmt4 x = CHR ''-'' # show_nat (scaled4 (float_value x) div 10000) @ CHR ''.'' #
     [digit_char (scaled4 (float_value x) div 1000 mod 10),
      digit_char (scaled4 (float_value x) div 100 mod 10),
      digit_char (scaled4 (float_value x) div 10 mod 10),
      digit_char (scaled4 (float_value x) mod 10)]"
  by (simp add: fmt4_def Let_def)

lemma show_nat_no_sign: "show_nat n @ s \<noteq> CHR ''-'' # t"
proof
  assume e: "show_nat n @ s = CHR ''-'' # t"
  obtain c cs where c: "show_nat n = c # cs"
    using show_nat_nonempty [of n] by (cases "show_nat n") auto
  then have "c = CHR ''-''" using e by simp
  then have "CHR ''-'' \<in> set (show_nat n)" using c by simp
  then show False using show_nat_plain [of n] by simp
qed

lemma digits_inj:
  assumes "show_nat (n div 10000) @ CHR ''.'' #
     [digit_char (n div 1000 mod 10), digit_char (n div 100 mod 10),
      digit_char (n div 10 mod 10), digit_char (n mod 10)] =
    show_nat (m div 10000) @ CHR ''.'' #
     [digit_char (m div 1000 mod 10), digit_char (m div 100 mod 10),
      digit_char (m div 10 mod 10), digit_char (m mod 10)]"
  shows "n = m"
proof -
  have p: "CHR ''.'' \<notin> set (show_nat (n div 10000))" "CHR ''.'' \<notin> set (show_nat (m div 10000))"
    using show_nat_plain by simp_all
  from split_at_char [OF p assms]
  have i: "show_nat (n div 10000) = show_nat (m div 10000)"
    and f: "[digit_char (n div 1000 mod 10), digit_char (n div 100 mod 10),
      digit_char (n div 10 mod 10), digit_char (n mod 10)] =
     [digit_char (m div 1000 mod 10), digit_char (m div 100 mod 10),
      digit_char (m div 10 mod 10), digit_char (m mod 10)]"
    by simp_all
  have "n div 10000 = m div 10000"
    using i by (rule show_nat_inj)
  moreover have "n mod 10000 = m mod 10000"
    using f by (rule decimals_inj)
  ultimately show ?thesis
    by (metis div_mult_mod_eq)
qed

lemma fmt4_eq_iff:
  "fmt4 x = fmt4 y \<longleftrightarrow>
     signbit x = signbit y \<and> scaled4 (float_value x) = scaled4 (float_value y)"
proof
  assume e: "fmt4 x = fmt4 y"
  show "signbit x = signbit y \<and> scaled4 (float_value x) = scaled4 (float_value y)"
  proof (cases "signbit x")
    case True
    note x = this
    show ?thesis
    proof (cases "signbit y")
      case True
      from e have "scaled4 (float_value x) = scaled4 (float_value y)"
        unfolding fmt4_signed [OF x] fmt4_signed [OF True] by (intro digits_inj) simp
      with x True show ?thesis by simp
    next
      case False
      from e show ?thesis
        unfolding fmt4_signed [OF x] fmt4_unsigned [OF False]
        using show_nat_no_sign by metis
    qed
  next
    case False
    note x = this
    show ?thesis
    proof (cases "signbit y")
      case True
      from e show ?thesis
        unfolding fmt4_unsigned [OF x] fmt4_signed [OF True]
        using show_nat_no_sign by metis
    next
      case False
      from e have "scaled4 (float_value x) = scaled4 (float_value y)"
        unfolding fmt4_unsigned [OF x] fmt4_unsigned [OF False] by (rule digits_inj)
      with x False show ?thesis by simp
    qed
  qed
next
  assume "signbit x = signbit y \<and> scaled4 (float_value x) = scaled4 (float_value y)"
  then show "fmt4 x = fmt4 y"
    by (simp add: fmt4_def)
qed

lemma fmt4_no_comma: "CHR '','' \<notin> set (fmt4 x)"
proof -
  have d: "digit_char (k mod 10) \<noteq> CHR '',''" for k :: nat
    using digit_char_plain [of "k mod 10"] by simp
  let ?n = "scaled4 (float_value x)"
  have "CHR '','' \<notin> set (show_nat (?n div 10000))"
    using show_nat_plain by simp
  then show ?thesis
    using d [of "?n div 1000"] d [of "?n div 100"] d [of "?n div 10"] d [of ?n]
    by (cases "signbit x") (auto simp: fmt4_signed fmt4_unsigned)
qed

lemma station_key_eq_iff:
  "station_key a = station_key b \<longleftrightarrow>
     fmt4 (st_lat a) = fmt4 (st_lat b) \<and> fmt4 (st_lon a) = fmt4 (st_lon b)"
proof
  assume "station_key a = station_key b"
  then have "fmt4 (st_lat a) @ CHR '','' # fmt4 (st_lon a) =
             fmt4 (st_lat b) @ CHR '','' # fmt4 (st_lon b)"
    by (simp add: station_key_def)
  with fmt4_no_comma fmt4_no_comma
  show "fmt4 (st_lat a) = fmt4 (st_lat b) \<and> fmt4 (st_lon a) = fmt4 (st_lon b)"
    by (rule split_at_char)
next
  assume "fmt4 (st_lat a) = fmt4 (st_lat b) \<and> fmt4 (st_lon a) = fmt4 (st_lon b)"
  then show "station_key a = station_key b"
    by (simp add: station_key_def)
qed

lemma fmt4_just_above: "fmt4 (Float (3 / 50000)) = ''0.0001''"
  by (simp add: fmt4_def scaled4_def round_half_even_def show_nat.simps digit_char_def)

lemma fmt4_negative_zero: "fmt4 NegZero = ''-0.0000''"
  by (simp add: fmt4_def scaled4_def round_half_even_def show_nat.simps digit_char_def)

lemma print_rows_all:
  "\<forall>x\<in>set xs. \<exists>l. row x = Inr l \<Longrightarrow>
   snd (print_rows row xs) = None \<and> map row xs = map Inr (fst (print_rows row xs))"
proof (induction xs)
  case Nil
  show ?case by simp
next
  case (Cons x xs)
  from Cons.prems obtain l where l: "row x = Inr l"
    by auto
  have tl: "\<forall>y\<in>set xs. \<exists>l. row y = Inr l"
    using Cons.prems by simp
  have pr: "print_rows row (x # xs) = (l # fst (print_rows row xs), snd (print_rows row xs))"
    using l by (simp split: prod.splits)
  show ?case
    using Cons.IH [OF tl] l by (simp only: pr) simp
qed

lemma table_row_string:
  "st_name (snd x) = JStr s \<Longrightarrow> \<exists>l. table_row provider_names agg x = Inr l"
  by (simp add: table_row_def)

lemma report_rows_all:
  assumes "\<forall>x\<in>set (all_stations (aggregate providers)). \<exists>s. st_name (snd x) = JStr s"
  shows "snd (report providers) = None \<and>
         map (table_row (map fst providers) (aggregate providers))
           (sorted_stations (aggregate providers)) =
         map Inr (filter is_row (fst (report providers)))"
proof -
  have "\<forall>x\<in>set (sorted_stations (aggregate providers)).
          \<exists>l. table_row (map fst providers) (aggregate providers) x = Inr l"
    using assms table_row_string by (fastforce simp: sorted_stations_def)
  then show ?thesis
    unfolding report_rows report_error by (rule print_rows_all)
qed

lemma fits_float_0: "fits_float 0"
  by (simp add: fits_float_def)

lemma py_float_default: "py_float parse (JInt 0) = Inr (Float 0)"
  by (simp add: fits_float_0)

lemma query_pioupiou_skips:
  assumes "pioupiou_records net = Inr (pre @ st # post)"
    and "pioupiou_station py_str lat lon radius_km st = Inr None"
  shows "query_pioupiou net py_str lat lon radius_km =
     finish ''Pioupiou'' [Requested pioupiou_request]
       (for_each (pioupiou_station py_str lat lon radius_km) (pre @ post) [])"
  by (simp add: query_pioupiou_def assms(1)
      for_each_skip [where body = "pioupiou_station py_str lat lon radius_km", OF assms(2)])


subsection \<open>Properties\<close>

text \<open>
  C7. The great-circle distance is symmetric: exchanging the two points gives the
  same result of \<open>haversine_distance\<close>, a distance or an exception.
\<close>

theorem haversine_distance_symmetric:
  "haversine_distance lat1 lon1 lat2 lon2 = haversine_distance lat2 lon2 lat1 lon1"
  by (simp add: haversine_distance_def hav_a_sym [of "radians lat1"])

text \<open>
  C5. For every target outside the three envelopes that \<open>query_nws\<close> checks
  (continental US, Alaska, Hawaii), the query returns the empty station list and its
  trace is empty: no request was issued and nothing was printed.
\<close>

theorem query_nws_outside_coverage:
  "\<not> nws_covers lat lon \<Longrightarrow> query_nws net lat lon radius_km = ([], [])"
  by (simp add: query_nws_def)

theorem query_nws_outside_coverage_witness:
  "\<not> nws_covers 48 2 \<and>
   query_nws (\<lambda>req. Some \<lparr>status_code = 200, json_body = Some (JArr [])\<rparr>) 48 2 SEARCH_RADIUS_KM
     = ([], [])"
proof -
  have h: "\<not> nws_covers 48 2"
    by (simp add: nws_covers_def)
  show ?thesis
    using h query_nws_outside_coverage [OF h] by simp
qed

text \<open>
  C10. For every target latitude strictly between -90 and 90 degrees the divisor
  \<open>111.0 * cos(radians(lat))\<close> of the longitude delta is not zero, the bounding box of
  \<open>query_awc_metar\<close> is computed without ZeroDivisionError, and the query goes on to
  issue its request with that bounding box.
\<close>

theorem bounding_box_divisor_nonzero:
  assumes "- 90 < lat" and "lat < 90"
  shows "111 * cos (radians lat) \<noteq> 0 \<and>
         bounding_box lat radius_km =
           Inr (radius_km / 111, radius_km / (111 * cos (radians lat))) \<and>
         (\<exists>t. snd (query_awc_metar net py_str lat lon radius_km) =
           Requested (awc_request py_str lat lon (radius_km / 111)
                        (radius_km / (111 * cos (radians lat)))) # t)"
proof -
  have c: "0 < cos (radians lat)"
    using assms by (rule cos_radians_pos)
  have b: "bounding_box lat radius_km =
             Inr (radius_km / 111, radius_km / (111 * cos (radians lat)))"
    using assms by (rule bounding_box_value)
  have "\<exists>t. snd (query_awc_metar net py_str lat lon radius_km) =
           Requested (awc_request py_str lat lon (radius_km / 111)
                        (radius_km / (111 * cos (radians lat)))) # t"
    by (simp add: query_awc_metar_def b Let_def finish_def split: sum.splits prod.splits option.splits)
  with c b show ?thesis by simp
qed

theorem bounding_box_divisor_nonzero_witness:
  "- 90 < (0::real) \<and> (0::real) < 90 \<and> 111 * cos (radians 0) \<noteq> 0 \<and>
   bounding_box 0 50 = Inr (50 / 111, 50 / (111 * cos (radians 0)))"
proof -
  have h: "- 90 < (0::real)" "(0::real) < 90"
    by simp_all
  show ?thesis
    using h bounding_box_divisor_nonzero [OF h, of 50 "\<lambda>req. None" "\<lambda>j. []" 0] by simp
qed

text \<open>
  C9. Every station an adapter returns was admitted by its loop: its exact haversine
  distance to the target is at most \<open>radius_km\<close> and its \<open>distance_km\<close> is that distance
  rounded to one decimal, so \<open>distance_km\<close> is at most \<open>radius_km + 0.05\<close>. It may exceed
  \<open>radius_km\<close>: for the target (0, 0) and the radius 0.08 a beacon at longitude
  18/31855 lies \<open>pi/50\<close> km away, within the radius, and is stored with 0.1.
\<close>

theorem adapters_admit_within_radius:
  "(\<forall>s\<in>set (fst (query_ffvl net parse lat lon radius_km)).
      admitted lat lon radius_km s \<and> st_distance_km s \<le> radius_km + 1 / 20) \<and>
   (\<forall>s\<in>set (fst (query_pioupiou net py_str lat lon radius_km)).
      admitted lat lon radius_km s \<and> st_distance_km s \<le> radius_km + 1 / 20) \<and>
   (\<forall>s\<in>set (fst (query_awc_metar net py_str lat lon radius_km)).
      admitted lat lon radius_km s \<and> st_distance_km s \<le> radius_km + 1 / 20) \<and>
   (\<forall>s\<in>set (fst (query_nws net lat lon radius_km)).
      admitted lat lon radius_km s \<and> st_distance_km s \<le> radius_km + 1 / 20) \<and>
   fst (query_bom lat lon radius_km) = [] \<and>
   (\<exists>s\<in>set (fst (query_ffvl
        (\<lambda>req. Some \<lparr>status_code = 200,
           json_body = Some (JArr [JObj [(''latitude'', JFloat (Float 0)),
                                         (''longitude'', JFloat (Float (18 / 31855)))]])\<rparr>)
        parse 0 0 (2 / 25))).
      2 / 25 < st_distance_km s)"
proof -
  have a: "\<forall>s\<in>set (fst (query_ffvl net parse lat lon radius_km)).
      admitted lat lon radius_km s \<and> st_distance_km s \<le> radius_km + 1 / 20"
    using query_ffvl_admitted admitted_bound by blast
  have b: "\<forall>s\<in>set (fst (query_pioupiou net py_str lat lon radius_km)).
      admitted lat lon radius_km s \<and> st_distance_km s \<le> radius_km + 1 / 20"
    using query_pioupiou_admitted admitted_bound by blast
  have c: "\<forall>s\<in>set (fst (query_awc_metar net py_str lat lon radius_km)).
      admitted lat lon radius_km s \<and> st_distance_km s \<le> radius_km + 1 / 20"
    using query_awc_metar_admitted admitted_bound by blast
  have d: "\<forall>s\<in>set (fst (query_nws net lat lon radius_km)).
      admitted lat lon radius_km s \<and> st_distance_km s \<le> radius_km + 1 / 20"
    using query_nws_admitted admitted_bound by blast
  have e: "\<exists>s\<in>set (fst (query_ffvl
        (\<lambda>req. Some \<lparr>status_code = 200,
           json_body = Some (JArr [JObj [(''latitude'', JFloat (Float 0)),
                                         (''longitude'', JFloat (Float (18 / 31855)))]])\<rparr>)
        parse 0 0 (2 / 25))).
      2 / 25 < st_distance_km s"
    by (simp add: ffvl_equator_example)
  from a b c d e query_bom_empty show ?thesis by blast
qed

theorem adapters_admit_within_radius_witness:
  "admitted 0 0 (2 / 25)
     \<lparr>st_name = JStr ''Unknown'', st_lat = Float 0, st_lon = Float (18 / 31855), st_distance_km = 1 / 10\<rparr> \<and>
   st_distance_km
     \<lparr>st_name = JStr ''Unknown'', st_lat = Float 0, st_lon = Float (18 / 31855), st_distance_km = 1 / 10\<rparr>
     \<le> 2 / 25 + 1 / 20"
  using adapters_admit_within_radius
    [of "\<lambda>req. Some \<lparr>status_code = 200,
           json_body = Some (JArr [JObj [(''latitude'', JFloat (Float 0)),
                                         (''longitude'', JFloat (Float (18 / 31855)))]])\<rparr>"
        "\<lambda>s. None" 0 0 "2 / 25" "\<lambda>j. []"]
  by (simp add: ffvl_equator_example)

text \<open>
  C6. When every provider returned the empty station list, the report is the summary
  (zero unique stations, a zero count per provider) followed by the line
  "No weather stations found", and it ends there without an exception: no title, header,
  separator or row of the table is printed.
\<close>

theorem report_no_stations:
  assumes "\<forall>p\<in>set providers. snd p = []"
  shows "report providers =
           ([Results_summary, Total_unique 0] @
            map (\<lambda>p. Provider_count (fst p) 0) providers @
            [Blank, No_stations_found], None) \<and>
         No_stations_found \<in> set (fst (report providers)) \<and>
         (\<forall>l\<in>set (fst (report providers)). \<not> is_table_line l)"
proof -
  have a: "aggregate providers = \<lparr>station_providers = (\<lambda>_. {}), all_stations = []\<rparr>"
    unfolding aggregate_def using assms by (rule aggregate_no_stations)
  have r: "report providers =
           ([Results_summary, Total_unique 0] @
            map (\<lambda>p. Provider_count (fst p) 0) providers @
            [Blank, No_stations_found], None)"
    by (simp add: report_def a provider_counts_empty [OF assms])
  show ?thesis
    unfolding r by auto
qed

theorem report_no_stations_witness:
  "report [(''FFVL Beacons'', []), (''Pioupiou'', []), (''AWC METAR'', []), (''NWS'', []),
           (''BOM'', [])] =
     ([Results_summary, Total_unique 0, Provider_count ''FFVL Beacons'' 0,
       Provider_count ''Pioupiou'' 0, Provider_count ''AWC METAR'' 0, Provider_count ''NWS'' 0,
       Provider_count ''BOM'' 0, Blank, No_stations_found], None)"
  using report_no_stations
    [of "[(''FFVL Beacons'', []), (''Pioupiou'', []), (''AWC METAR'', []), (''NWS'', []),
          (''BOM'', [])]"]
  by simp

text \<open>
  C3 as stated fails on the distance. Two providers report the same physical station
  with coordinates 0.00004 degrees apart: both records have the key "0.0000,0.0000", one
  carries the rounded distance 0.0 and the other 0.1. Processed in one order the key's
  record has distance 0.0, in the other order 0.1.
\<close>

theorem aggregation_distance_counterexample:
  "mset [(''Pioupiou'', [\<lparr>st_name = JStr ''A'', st_lat = Float 0, st_lon = Float 0, st_distance_km = 0\<rparr>]),
         (''AWC METAR'', [\<lparr>st_name = JStr ''B'', st_lat = Float (1 / 25000), st_lon = Float 0, st_distance_km = 1 / 10\<rparr>])] =
   mset [(''AWC METAR'', [\<lparr>st_name = JStr ''B'', st_lat = Float (1 / 25000), st_lon = Float 0, st_distance_km = 1 / 10\<rparr>]),
         (''Pioupiou'', [\<lparr>st_name = JStr ''A'', st_lat = Float 0, st_lon = Float 0, st_distance_km = 0\<rparr>])] \<and>
   map (\<lambda>x. (fst x, st_distance_km (snd x)))
     (all_stations (aggregate
        [(''Pioupiou'', [\<lparr>st_name = JStr ''A'', st_lat = Float 0, st_lon = Float 0, st_distance_km = 0\<rparr>]),
         (''AWC METAR'', [\<lparr>st_name = JStr ''B'', st_lat = Float (1 / 25000), st_lon = Float 0, st_distance_km = 1 / 10\<rparr>])]))
     = [(''0.0000,0.0000'', 0)] \<and>
   map (\<lambda>x. (fst x, st_distance_km (snd x)))
     (all_stations (aggregate
        [(''AWC METAR'', [\<lparr>st_name = JStr ''B'', st_lat = Float (1 / 25000), st_lon = Float 0, st_distance_km = 1 / 10\<rparr>]),
         (''Pioupiou'', [\<lparr>st_name = JStr ''A'', st_lat = Float 0, st_lon = Float 0, st_distance_km = 0\<rparr>])]))
     = [(''0.0000,0.0000'', 1 / 10)]"
  by (simp add: aggregate_def aggregate_station_def Let_def station_key_origin
      station_key_near_origin)

text \<open>
  C3 (as amended). For every list of (provider name, station list) pairs and every
  permutation of it, step 3 of \<open>main\<close> produces the same set of station keys and the same
  set of providers for each key. The record kept for a key is the first station with
  that key in processing order, so the record, and with it the distance shown for the
  key, depends on the order.
\<close>

theorem aggregation_order_independent:
  assumes "mset ps = mset qs"
  shows "fst ` set (all_stations (aggregate ps)) = fst ` set (all_stations (aggregate qs)) \<and>
         station_providers (aggregate ps) = station_providers (aggregate qs) \<and>
         (\<forall>k. map_of (all_stations (aggregate ps)) k =
                find (\<lambda>s. station_key s = k) (concat (map snd ps)))"
proof -
  have e: "set ps = set qs"
    using assms by (rule mset_eq_setD)
  have k: "fst ` set (all_stations (aggregate ps)) = fst ` set (all_stations (aggregate qs))"
    by (simp only: aggregate_keys_eq e)
  have p: "station_providers (aggregate ps) = station_providers (aggregate qs)"
    by (rule ext) (simp only: aggregate_station_providers_eq e)
  from k p aggregate_first_seen show ?thesis by blast
qed

theorem aggregation_order_independent_witness:
  "fst ` set (all_stations (aggregate
        [(''Pioupiou'', [\<lparr>st_name = JStr ''A'', st_lat = Float 0, st_lon = Float 0, st_distance_km = 0\<rparr>]),
         (''AWC METAR'', [\<lparr>st_name = JStr ''B'', st_lat = Float (1 / 25000), st_lon = Float 0, st_distance_km = 1 / 10\<rparr>])])) =
   fst ` set (all_stations (aggregate
        [(''AWC METAR'', [\<lparr>st_name = JStr ''B'', st_lat = Float (1 / 25000), st_lon = Float 0, st_distance_km = 1 / 10\<rparr>]),
         (''Pioupiou'', [\<lparr>st_name = JStr ''A'', st_lat = Float 0, st_lon = Float 0, st_distance_km = 0\<rparr>])])) \<and>
   station_providers (aggregate
        [(''Pioupiou'', [\<lparr>st_name = JStr ''A'', st_lat = Float 0, st_lon = Float 0, st_distance_km = 0\<rparr>]),
         (''AWC METAR'', [\<lparr>st_name = JStr ''B'', st_lat = Float (1 / 25000), st_lon = Float 0, st_distance_km = 1 / 10\<rparr>])]) =
   station_providers (aggregate
        [(''AWC METAR'', [\<lparr>st_name = JStr ''B'', st_lat = Float (1 / 25000), st_lon = Float 0, st_distance_km = 1 / 10\<rparr>]),
         (''Pioupiou'', [\<lparr>st_name = JStr ''A'', st_lat = Float 0, st_lon = Float 0, st_distance_km = 0\<rparr>])])"
proof -
  let ?a = "\<lparr>st_name = JStr ''A'', st_lat = Float 0, st_lon = Float 0, st_distance_km = 0\<rparr>"
  let ?b = "\<lparr>st_name = JStr ''B'', st_lat = Float (1 / 25000), st_lon = Float 0, st_distance_km = 1 / 10\<rparr>"
  have h: "mset [(''Pioupiou'', [?a]), (''AWC METAR'', [?b])] =
           mset [(''AWC METAR'', [?b]), (''Pioupiou'', [?a])]"
    by simp
  from aggregation_order_independent [OF h] show ?thesis
    by (intro conjI) (erule conjE, assumption, (erule conjE)+, assumption)
qed

text \<open>
  C4 as stated fails on ties. Two stations with the keys "1.0000,0.0000" and
  "0.0000,0.0000" have the same distance 5.0. Their rows are printed in the order the
  provider listed them: A then B for one order, B then A for the other. The station key
  does not decide the order.
\<close>

theorem report_ties_counterexample:
  "filter is_row (fst (report
     [(''NWS'', [\<lparr>st_name = JStr ''A'', st_lat = Float 1, st_lon = Float 0, st_distance_km = 5\<rparr>,
                 \<lparr>st_name = JStr ''B'', st_lat = Float 0, st_lon = Float 0, st_distance_km = 5\<rparr>])])) =
     [Table_row ''A'' 5 [True], Table_row ''B'' 5 [True]] \<and>
   map fst (sorted_stations (aggregate
     [(''NWS'', [\<lparr>st_name = JStr ''A'', st_lat = Float 1, st_lon = Float 0, st_distance_km = 5\<rparr>,
                 \<lparr>st_name = JStr ''B'', st_lat = Float 0, st_lon = Float 0, st_distance_km = 5\<rparr>])])) =
     [''1.0000,0.0000'', ''0.0000,0.0000''] \<and>
   filter is_row (fst (report
     [(''NWS'', [\<lparr>st_name = JStr ''B'', st_lat = Float 0, st_lon = Float 0, st_distance_km = 5\<rparr>,
                 \<lparr>st_name = JStr ''A'', st_lat = Float 1, st_lon = Float 0, st_distance_km = 5\<rparr>])])) =
     [Table_row ''B'' 5 [True], Table_row ''A'' 5 [True]] \<and>
   map fst (sorted_stations (aggregate
     [(''NWS'', [\<lparr>st_name = JStr ''B'', st_lat = Float 0, st_lon = Float 0, st_distance_km = 5\<rparr>,
                 \<lparr>st_name = JStr ''A'', st_lat = Float 1, st_lon = Float 0, st_distance_km = 5\<rparr>])])) =
     [''0.0000,0.0000'', ''1.0000,0.0000'']"
  by (simp add: report_rows sorted_stations_def aggregate_def aggregate_station_def Let_def
      station_key_origin station_key_north table_row_def)

text \<open>
  C4 (as amended). The list \<open>sorted_stations\<close> the table is printed from holds the
  stations of \<open>all_stations\<close>, in ascending order of \<open>distance_km\<close>, and stations of
  equal distance keep the order in which their keys were first inserted into
  \<open>all_stations\<close> (the sort is stable; the key is not compared). When the station names
  are strings, the table rows of the report are the rows of that list, in that order.
\<close>

theorem report_rows_sorted_by_distance:
  "sorted (map (\<lambda>x. st_distance_km (snd x)) (sorted_stations (aggregate providers))) \<and>
   (\<forall>d. filter (\<lambda>x. st_distance_km (snd x) = d) (sorted_stations (aggregate providers)) =
        filter (\<lambda>x. st_distance_km (snd x) = d) (all_stations (aggregate providers))) \<and>
   mset (sorted_stations (aggregate providers)) = mset (all_stations (aggregate providers)) \<and>
   ((\<forall>x\<in>set (all_stations (aggregate providers)). \<exists>s. st_name (snd x) = JStr s) \<longrightarrow>
      map (table_row (map fst providers) (aggregate providers))
        (sorted_stations (aggregate providers)) =
      map Inr (filter is_row (fst (report providers))))"
proof (intro conjI allI impI)
  show "sorted (map (\<lambda>x. st_distance_km (snd x)) (sorted_stations (aggregate providers)))"
    by (rule sorted_stations_sorted)
next
  fix d
  show "filter (\<lambda>x. st_distance_km (snd x) = d) (sorted_stations (aggregate providers)) =
        filter (\<lambda>x. st_distance_km (snd x) = d) (all_stations (aggregate providers))"
    by (rule sorted_stations_stable)
next
  show "mset (sorted_stations (aggregate providers)) = mset (all_stations (aggregate providers))"
    by (simp add: sorted_stations_def)
next
  assume names: "\<forall>x\<in>set (all_stations (aggregate providers)). \<exists>s. st_name (snd x) = JStr s"
  show "map (table_row (map fst providers) (aggregate providers))
     (sorted_stations (aggregate providers)) =
   map Inr (filter is_row (fst (report providers)))"
    using report_rows_all [OF names] by (rule conjunct2)
qed

theorem report_rows_sorted_by_distance_witness:
  "sorted (map (\<lambda>x. st_distance_km (snd x)) (sorted_stations (aggregate
     [(''NWS'', [\<lparr>st_name = JStr ''A'', st_lat = Float 1, st_lon = Float 0, st_distance_km = 5\<rparr>,
                 \<lparr>st_name = JStr ''B'', st_lat = Float 0, st_lon = Float 0, st_distance_km = 3\<rparr>])]))) \<and>
   map (table_row [''NWS''] (aggregate
     [(''NWS'', [\<lparr>st_name = JStr ''A'', st_lat = Float 1, st_lon = Float 0, st_distance_km = 5\<rparr>,
                 \<lparr>st_name = JStr ''B'', st_lat = Float 0, st_lon = Float 0, st_distance_km = 3\<rparr>])]))
     (sorted_stations (aggregate
     [(''NWS'', [\<lparr>st_name = JStr ''A'', st_lat = Float 1, st_lon = Float 0, st_distance_km = 5\<rparr>,
                 \<lparr>st_name = JStr ''B'', st_lat = Float 0, st_lon = Float 0, st_distance_km = 3\<rparr>])])) =
   map Inr (filter is_row (fst (report
     [(''NWS'', [\<lparr>st_name = JStr ''A'', st_lat = Float 1, st_lon = Float 0, st_distance_km = 5\<rparr>,
                 \<lparr>st_name = JStr ''B'', st_lat = Float 0, st_lon = Float 0, st_distance_km = 3\<rparr>])]))) \<and>
   filter is_row (fst (report
     [(''NWS'', [\<lparr>st_name = JStr ''A'', st_lat = Float 1, st_lon = Float 0, st_distance_km = 5\<rparr>,
                 \<lparr>st_name = JStr ''B'', st_lat = Float 0, st_lon = Float 0, st_distance_km = 3\<rparr>])])) =
     [Table_row ''B'' 3 [True], Table_row ''A'' 5 [True]]"
proof -
  let ?ps = "[(''NWS'',
       [\<lparr>st_name = JStr ''A'', st_lat = Float 1, st_lon = Float 0, st_distance_km = 5\<rparr>,
        \<lparr>st_name = JStr ''B'', st_lat = Float 0, st_lon = Float 0, st_distance_km = 3\<rparr>])]"
  have a: "all_stations (aggregate ?ps) =
      [(''1.0000,0.0000'', \<lparr>st_name = JStr ''A'', st_lat = Float 1, st_lon = Float 0, st_distance_km = 5\<rparr>),
       (''0.0000,0.0000'', \<lparr>st_name = JStr ''B'', st_lat = Float 0, st_lon = Float 0, st_distance_km = 3\<rparr>)]"
    by (simp add: aggregate_def aggregate_station_def Let_def station_key_origin station_key_north)
  have h: "\<forall>x\<in>set (all_stations (aggregate ?ps)). \<exists>s. st_name (snd x) = JStr s"
    unfolding a by simp
  have r: "filter is_row (fst (report ?ps)) = [Table_row ''B'' 3 [True], Table_row ''A'' 5 [True]]"
    by (simp add: report_rows sorted_stations_def aggregate_def aggregate_station_def Let_def
        station_key_origin station_key_north table_row_def)
  have m: "map fst ?ps = [''NWS'']"
    by simp
  note t = report_rows_sorted_by_distance [where providers = ?ps]
  have c1: "sorted (map (\<lambda>x. st_distance_km (snd x)) (sorted_stations (aggregate ?ps)))"
    using t by (rule conjunct1)
  have c2: "map (table_row [''NWS''] (aggregate ?ps)) (sorted_stations (aggregate ?ps)) =
      map Inr (filter is_row (fst (report ?ps)))"
    using t [THEN conjunct2, THEN conjunct2, THEN conjunct2, THEN mp, OF h] unfolding m .
  from c1 c2 r show ?thesis by (intro conjI)
qed

text \<open>
  C2 as stated fails in its first half. The latitudes 0.00004 and 0.00006 differ by
  0.00002, less than 0.00005, and the longitudes are equal, yet one latitude prints as
  "0.0000" and the other as "0.0001": a rounding boundary lies between them and the two
  stations get different keys.
\<close>

theorem station_key_close_counterexample:
  "\<bar>(1 / 25000 :: real) - 3 / 50000\<bar> < 5 / 100000 \<and> \<bar>(0 :: real) - 0\<bar> < 5 / 100000 \<and>
   station_key \<lparr>st_name = JStr ''A'', st_lat = Float (1 / 25000), st_lon = Float 0,
                 st_distance_km = 0\<rparr> \<noteq>
   station_key \<lparr>st_name = JStr ''B'', st_lat = Float (3 / 50000), st_lon = Float 0,
                 st_distance_km = 0\<rparr>"
  by (simp add: station_key_def fmt4_0 fmt4_small fmt4_just_above)

text \<open>
  C2 (as amended). Two stations whose latitudes or longitudes differ by more than 0.0001
  degrees get different keys. Two stations get the same key exactly when, in each axis,
  the two coordinates have the same sign bit (a negative zero prints with a minus sign)
  and their magnitudes round (half to even) to the same number of ten-thousandths; being
  closer than 0.00005 in each axis does not ensure that.
\<close>

theorem station_key_separates:
  "(1 / 10000 < \<bar>float_value (st_lat a) - float_value (st_lat b)\<bar> \<or>
    1 / 10000 < \<bar>float_value (st_lon a) - float_value (st_lon b)\<bar> \<longrightarrow>
      station_key a \<noteq> station_key b) \<and>
   (station_key a = station_key b \<longleftrightarrow>
      signbit (st_lat a) = signbit (st_lat b) \<and>
      scaled4 (float_value (st_lat a)) = scaled4 (float_value (st_lat b)) \<and>
      signbit (st_lon a) = signbit (st_lon b) \<and>
      scaled4 (float_value (st_lon a)) = scaled4 (float_value (st_lon b)))"
proof (intro conjI impI)
  show c: "station_key a = station_key b \<longleftrightarrow>
      signbit (st_lat a) = signbit (st_lat b) \<and>
      scaled4 (float_value (st_lat a)) = scaled4 (float_value (st_lat b)) \<and>
      signbit (st_lon a) = signbit (st_lon b) \<and>
      scaled4 (float_value (st_lon a)) = scaled4 (float_value (st_lon b))"
    by (simp only: station_key_eq_iff fmt4_eq_iff conj_assoc)
  assume far: "1 / 10000 < \<bar>float_value (st_lat a) - float_value (st_lat b)\<bar> \<or>
    1 / 10000 < \<bar>float_value (st_lon a) - float_value (st_lon b)\<bar>"
  show "station_key a \<noteq> station_key b"
  proof
    assume "station_key a = station_key b"
    then have s: "signbit (st_lat a) = signbit (st_lat b)"
      "scaled4 (float_value (st_lat a)) = scaled4 (float_value (st_lat b))"
      "signbit (st_lon a) = signbit (st_lon b)"
      "scaled4 (float_value (st_lon a)) = scaled4 (float_value (st_lon b))"
      unfolding c by simp_all
    have "\<bar>float_value (st_lat a) - float_value (st_lat b)\<bar> \<le> 1 / 10000"
      using same_sign_values [OF s(1)] s(2) by (rule same_digits_close)
    moreover have "\<bar>float_value (st_lon a) - float_value (st_lon b)\<bar> \<le> 1 / 10000"
      using same_sign_values [OF s(3)] s(4) by (rule same_digits_close)
    ultimately show False
      using far by linarith
  qed
qed

theorem station_key_separates_witness:
  "1 / 10000 < \<bar>(4592 / 100 :: real) - 459202 / 10000\<bar> \<and>
   station_key \<lparr>st_name = JStr ''A'', st_lat = Float (4592 / 100), st_lon = Float (691 / 100),
                 st_distance_km = 23 / 10\<rparr> \<noteq>
   station_key \<lparr>st_name = JStr ''B'', st_lat = Float (459202 / 10000), st_lon = Float (691 / 100),
                 st_distance_km = 23 / 10\<rparr> \<and>
   station_key \<lparr>st_name = JStr ''A'', st_lat = NegZero, st_lon = Float 0, st_distance_km = 0\<rparr> \<noteq>
   station_key \<lparr>st_name = JStr ''B'', st_lat = Float 0, st_lon = Float 0, st_distance_km = 0\<rparr>"
proof -
  have h: "1 / 10000 < \<bar>(4592 / 100 :: real) - 459202 / 10000\<bar>"
    by simp
  have c1: "station_key \<lparr>st_name = JStr ''A'', st_lat = Float (4592 / 100), st_lon = Float (691 / 100),
                 st_distance_km = 23 / 10\<rparr> \<noteq>
   station_key \<lparr>st_name = JStr ''B'', st_lat = Float (459202 / 10000), st_lon = Float (691 / 100),
                 st_distance_km = 23 / 10\<rparr>"
    using station_key_separates
      [where a = "\<lparr>st_name = JStr ''A'', st_lat = Float (4592 / 100), st_lon = Float (691 / 100),
                 st_distance_km = 23 / 10\<rparr>"
         and b = "\<lparr>st_name = JStr ''B'', st_lat = Float (459202 / 10000), st_lon = Float (691 / 100),
                 st_distance_km = 23 / 10\<rparr>", THEN conjunct1] h
    by simp
  have c2: "station_key \<lparr>st_name = JStr ''A'', st_lat = NegZero, st_lon = Float 0, st_distance_km = 0\<rparr> \<noteq>
   station_key \<lparr>st_name = JStr ''B'', st_lat = Float 0, st_lon = Float 0, st_distance_km = 0\<rparr>"
    using station_key_separates
      [where a = "\<lparr>st_name = JStr ''A'', st_lat = NegZero, st_lon = Float 0, st_distance_km = 0\<rparr>"
         and b = "\<lparr>st_name = JStr ''B'', st_lat = Float 0, st_lon = Float 0, st_distance_km = 0\<rparr>",
       THEN conjunct2]
    by simp
  from h c1 c2 show ?thesis by (intro conjI)
qed

text \<open>
  C8 as stated fails. A beacon without coordinates defaults to the point (0, 0), which is
  the target here, so the loop body alone would turn it into a station. In a response
  where it follows a beacon whose latitude is the string "north", \<open>float\<close> raises
  ValueError at the first beacon, the loop ends there, and \<open>query_ffvl\<close> returns the
  empty list: the beacon without coordinates is not in the result.
\<close>

theorem ffvl_skipped_after_failure_counterexample:
  "ffvl_beacon (\<lambda>s. None) 0 0 50 (JObj [(''nom'', JStr ''B'')]) =
     Inr (Some \<lparr>st_name = JStr ''B'', st_lat = Float 0, st_lon = Float 0, st_distance_km = 0\<rparr>) \<and>
   haversine_distance 0 0 0 0 = Inr 0 \<and>
   query_ffvl
     (\<lambda>req. Some \<lparr>status_code = 200,
        json_body = Some (JArr
          [JObj [(''nom'', JStr ''A''), (''latitude'', JStr ''north'')],
           JObj [(''nom'', JStr ''B'')]])\<rparr>)
     (\<lambda>s. None) 0 0 50
   = ([], [Requested ffvl_request, Printed (Error_querying ''FFVL'' ValueError)])"
  by (simp add: query_ffvl_unfold ffvl_records_def fetch_ok ffvl_beacon_def fits_float_0
      haversine_same_point py_round1_0 finish_def)

text \<open>
  C8 (as amended). In \<open>query_ffvl\<close> a beacon without a \<open>latitude\<close> or a \<open>longitude\<close>
  field is not skipped: the missing coordinate is 0. When no earlier beacon of the
  response raised, the coordinate that is present converts to a float, and the point so
  obtained lies within \<open>radius_km\<close> of the target, the query returns the beacon as a
  station at latitude 0 and/or longitude 0. In \<open>query_pioupiou\<close> a station whose \<open>meta\<close>
  lacks either coordinate is skipped: the query runs as if the record were not there.
\<close>

theorem ffvl_missing_coordinate_defaults_to_zero:
  "(ffvl_records net = Inr (pre @ JObj kvs # post) \<and>
    snd (for_each (ffvl_beacon parse lat lon radius_km) pre []) = None \<and>
    (map_of kvs ''latitude'' = None \<or> map_of kvs ''longitude'' = None) \<and>
    py_float parse (case map_of kvs ''latitude'' of None \<Rightarrow> JInt 0 | Some v \<Rightarrow> v) = Inr blat \<and>
    py_float parse (case map_of kvs ''longitude'' of None \<Rightarrow> JInt 0 | Some v \<Rightarrow> v) = Inr blon \<and>
    haversine_distance lat lon (float_value blat) (float_value blon) = Inr d \<and>
    d \<le> radius_km \<longrightarrow>
      \<lparr>st_name = (case map_of kvs ''nom'' of None \<Rightarrow> JStr ''Unknown'' | Some v \<Rightarrow> v),
       st_lat = blat, st_lon = blon, st_distance_km = py_round1 d\<rparr>
        \<in> set (fst (query_ffvl net parse lat lon radius_km)) \<and>
      (map_of kvs ''latitude'' = None \<longrightarrow> blat = Float 0) \<and>
      (map_of kvs ''longitude'' = None \<longrightarrow> blon = Float 0)) \<and>
   (pioupiou_records net = Inr (pre @ st # post) \<and>
    json_get st ''meta'' (JObj []) = Inr (JObj meta) \<and>
    (map_of meta ''latitude'' = None \<or> map_of meta ''longitude'' = None) \<longrightarrow>
      pioupiou_station py_str lat lon radius_km st = Inr None \<and>
      query_pioupiou net py_str lat lon radius_km =
        finish ''Pioupiou'' [Requested pioupiou_request]
          (for_each (pioupiou_station py_str lat lon radius_km) (pre @ post) []))"
proof (intro conjI impI; (elim conjE)?)
  assume h: "ffvl_records net = Inr (pre @ JObj kvs # post)"
    "snd (for_each (ffvl_beacon parse lat lon radius_km) pre []) = None"
    "py_float parse (case map_of kvs ''latitude'' of None \<Rightarrow> JInt 0 | Some v \<Rightarrow> v) = Inr blat"
    "py_float parse (case map_of kvs ''longitude'' of None \<Rightarrow> JInt 0 | Some v \<Rightarrow> v) = Inr blon"
    "haversine_distance lat lon (float_value blat) (float_value blon) = Inr d"
    "d \<le> radius_km"
  have b: "ffvl_beacon parse lat lon radius_km (JObj kvs) =
     Inr (Some \<lparr>st_name = (case map_of kvs ''nom'' of None \<Rightarrow> JStr ''Unknown'' | Some v \<Rightarrow> v),
                st_lat = blat, st_lon = blon, st_distance_km = py_round1 d\<rparr>)"
    using h(3-6) by (rule ffvl_beacon_value)
  show "\<lparr>st_name = (case map_of kvs ''nom'' of None \<Rightarrow> JStr ''Unknown'' | Some v \<Rightarrow> v),
       st_lat = blat, st_lon = blon, st_distance_km = py_round1 d\<rparr>
        \<in> set (fst (query_ffvl net parse lat lon radius_km))"
    using h(1,2) b by (rule query_ffvl_includes)
next
  assume "py_float parse (case map_of kvs ''latitude'' of None \<Rightarrow> JInt 0 | Some v \<Rightarrow> v) = Inr blat"
    "map_of kvs ''latitude'' = None"
  then show "blat = Float 0"
    by (simp add: fits_float_0)
next
  assume "py_float parse (case map_of kvs ''longitude'' of None \<Rightarrow> JInt 0 | Some v \<Rightarrow> v) = Inr blon"
    "map_of kvs ''longitude'' = None"
  then show "blon = Float 0"
    by (simp add: fits_float_0)
next
  assume "json_get st ''meta'' (JObj []) = Inr (JObj meta)"
    "map_of meta ''latitude'' = None \<or> map_of meta ''longitude'' = None"
  then show "pioupiou_station py_str lat lon radius_km st = Inr None"
    by (rule pioupiou_station_skips)
next
  assume r: "pioupiou_records net = Inr (pre @ st # post)"
    and h: "json_get st ''meta'' (JObj []) = Inr (JObj meta)"
    "map_of meta ''latitude'' = None \<or> map_of meta ''longitude'' = None"
  have "pioupiou_station py_str lat lon radius_km st = Inr None"
    using h by (rule pioupiou_station_skips)
  with r show "query_pioupiou net py_str lat lon radius_km =
        finish ''Pioupiou'' [Requested pioupiou_request]
          (for_each (pioupiou_station py_str lat lon radius_km) (pre @ post) [])"
    by (rule query_pioupiou_skips)
qed

theorem ffvl_missing_coordinate_defaults_to_zero_witness:
  "\<lparr>st_name = JStr ''B'', st_lat = Float 0, st_lon = Float 0, st_distance_km = 0\<rparr>
     \<in> set (fst (query_ffvl
         (\<lambda>req. Some \<lparr>status_code = 200,
            json_body = Some (JArr
              [JObj [(''nom'', JStr ''A''), (''latitude'', JFloat (Float 0)),
                     (''longitude'', JFloat (Float 0))],
               JObj [(''nom'', JStr ''B'')]])\<rparr>)
         (\<lambda>s. None) 0 0 50)) \<and>
   query_pioupiou
     (\<lambda>req. Some \<lparr>status_code = 200,
        json_body = Some (JObj [(''data'', JArr
          [JObj [(''id'', JInt 7),
                 (''meta'', JObj [(''name'', JStr ''B''), (''longitude'', JFloat (Float 0))])]])])\<rparr>)
     (\<lambda>j. []) 0 0 50
   = ([], [Requested pioupiou_request])"
proof -
  let ?good = "JObj [(''nom'', JStr ''A''), (''latitude'', JFloat (Float 0)),
                     (''longitude'', JFloat (Float 0))]"
  let ?net = "\<lambda>req::request. Some \<lparr>status_code = 200,
            json_body = Some (JArr [?good, JObj [(''nom'', JStr ''B'')]])\<rparr>"
  have r: "ffvl_records ?net = Inr ([?good] @ JObj [(''nom'', JStr ''B'')] # [])"
    by (simp add: ffvl_records_def fetch_ok)
  have g: "snd (for_each (ffvl_beacon (\<lambda>s. None) 0 0 50) [?good] []) = None"
    by (simp add: ffvl_beacon_def haversine_same_point py_round1_0)
  have d0: "haversine_distance 0 0 (float_value (Float 0)) (float_value (Float 0)) = Inr 0"
    by (simp add: haversine_same_point)
  have c1: "\<lparr>st_name = JStr ''B'', st_lat = Float 0, st_lon = Float 0, st_distance_km = 0\<rparr>
     \<in> set (fst (query_ffvl ?net (\<lambda>s. None) 0 0 50))"
    using ffvl_missing_coordinate_defaults_to_zero
      [where net = ?net and pre = "[?good]" and kvs = "[(''nom'', JStr ''B'')]" and post = "[]"
         and parse = "\<lambda>s. None" and lat = 0 and lon = 0 and radius_km = 50
         and blat = "Float 0" and blon = "Float 0" and d = 0, THEN conjunct1] r g d0
    by (simp add: fits_float_0 py_round1_0)
  let ?st = "JObj [(''id'', JInt 7),
                 (''meta'', JObj [(''name'', JStr ''B''), (''longitude'', JFloat (Float 0))])]"
  let ?pnet = "\<lambda>req::request. Some \<lparr>status_code = 200,
        json_body = Some (JObj [(''data'', JArr [?st])])\<rparr>"
  have p: "pioupiou_records ?pnet = Inr ([] @ ?st # [])"
    by (simp add: pioupiou_records_def fetch_ok)
  have c2: "query_pioupiou ?pnet (\<lambda>j. []) 0 0 50 = ([], [Requested pioupiou_request])"
    using ffvl_missing_coordinate_defaults_to_zero
      [where net = ?pnet and pre = "[]" and st = ?st and post = "[]"
         and meta = "[(''name'', JStr ''B''), (''longitude'', JFloat (Float 0))]"
         and py_str = "\<lambda>j. []" and lat = 0 and lon = 0 and radius_km = 50, THEN conjunct2] p
    by (simp add: finish_def)
  from c1 c2 show ?thesis by (rule conjI)
qed




end
